theory Spec2Isabelle
  imports Complex_Main
begin

section \<open>The Pico Flexx capture backend (src/backend.py)\<close>

text \<open>
  A shallow embedding of the class \<open>Picoflexx_Source\<close>. The object is a record of its
  fields; every method takes the record and returns the updated one. The camera SDK, the
  host clocks and the notification bus are outside the file: what the camera and the
  clocks answer during one call is an argument of the method (a record of replies), and
  what the method does to them (camera calls, notifications, log lines, the metadata file)
  is appended, in program order, to the field \<open>effects\<close>.

  A Python float is given by the real number it denotes (clock readings and timestamps
  are finite doubles), a Python int is an \<open>int\<close>. Comparing doubles is exact, so it is the
  order of the reals; subtracting and adding them rounds, so the two operations are not
  those of the reals but parameters of the model (\<open>float_arith\<close>), of which nothing is
  assumed: what is proved holds of IEEE double arithmetic as of any other. The delay of
  the exposure notification is the literal \<open>0.3\<close>, written \<open>3 / 10\<close>; nothing is computed
  from it. A method call
  on \<open>self.camera\<close> while it is \<open>None\<close> raises \<open>AttributeError\<close>; that is the only
  exception modelled, camera and file operations themselves are taken to return.
\<close>

subsection \<open>Data\<close>

datatype py_error = AttributeError

datatype log_level = Debug | Info | Warning | Error

datatype camera_call =
    Initialize
  | Is_connected
  | Is_capturing
  | Get_frame
  | Get_current_usecase
  | Get_exposure_mode
  | Get_exposure_limits
  | Set_usecase string
  | Set_exposure int
  | Set_exposure_mode bool
  | Start_recording string
  | Stop_recording
  | Close

datatype notification =
    Picoflexx_set_exposure real int
  | Picoflexx_disconnected
  | Picoflexx_reconnected
  | Recording_started string
  | Recording_stopped
  | Other_subject string

datatype effect =
    Camera camera_call
  | Notify_all notification
  | Log log_level string
  | Write_key_value_file string string "(string \<times> real option) list" bool

record frame =
  timestamp :: real
  exposure_times :: "int list"

record frame_pair =
  ir :: frame
  depth :: frame

record slider =
  read_only :: bool
  minimum :: int
  maximum :: int

record source =
  camera :: bool
  selected_usecase :: "string option"
  frame_count :: int
  record_pointcloud :: bool
  royale_timestamp_offset :: "real option"
  last_frame_time :: real
  missed_frame_count :: int
  reconnection_attempts :: int
  recording_reconnection_count :: int
  ui_exposure :: "slider option"
  ui_usecase :: "bool option"
  switch_record_pointcloud :: "bool option"
  current_exposure :: int
  current_exposure_mode :: bool
  recording_directory :: "string option"
  menu :: bool
  effects :: "effect list"

text \<open>
  \<open>camera\<close> is whether the handle exists (\<open>False\<close> is Python's \<open>None\<close>, after
  \<open>cleanup\<close>); \<open>menu\<close> is the truth value of \<open>self.menu\<close>; \<open>ui_usecase\<close> and
  \<open>switch_record_pointcloud\<close> hold the \<open>read_only\<close> flag of the widget when it exists.
\<close>

text \<open>
  What the outside answers during one call. \<open>camera_state\<close>: the answers of the camera to
  one \<open>load_camera_state\<close> (the two queries of \<open>online\<close>, then usecase, exposure mode and
  limits). \<open>init_replies\<close>: the answers to one \<open>init_device\<close>, in the order it asks
  (\<open>initialize\<close>, \<open>is_connected\<close>, the state read by \<open>set_usecase\<close>, the mode that
  \<open>set_exposure_mode\<close> returns, the state read at the end). \<open>poll\<close>: the answer to
  \<open>get_frame\<close> and the clock readings of one \<open>get_frames\<close>: \<open>time()\<close> in the threshold
  test, the replies to the reconnection attempt, \<open>time()\<close> after it, \<open>time()\<close> on
  success, and \<open>g_pool.get_timestamp()\<close> and \<open>time()\<close> where the offset is computed.
  \<open>init_dict\<close>: the dictionary of \<open>get_init_dict\<close>, which the constructor takes back as
  keyword arguments; \<open>base_entries\<close> stands for the entries of the base classes.
\<close>

record camera_state =
  is_connected :: bool
  is_capturing :: bool
  current_usecase :: string
  exposure_mode :: bool
  exposure_limits :: "int \<times> int"

record init_replies =
  initialize_r :: bool
  connected_r :: bool
  usecase_state :: camera_state
  applied_mode :: bool
  final_state :: camera_state

record poll =
  frame_r :: "frame_pair option"
  time_check :: real
  reconnect_r :: init_replies
  time_reset :: real
  time_success :: real
  pupil_timestamp :: real
  time_offset :: real

record init_dict =
  record_pointcloud_arg :: bool
  auto_exposure_arg :: bool
  current_exposure_arg :: int
  selected_usecase_arg :: "string option"
  base_entries :: "(string \<times> string) list"

text \<open>
  Float subtraction and addition, \<open>x - y\<close> and \<open>x + y\<close> on two doubles.
\<close>

record float_arith =
  fsub :: "real \<Rightarrow> real \<Rightarrow> real"
  fadd :: "real \<Rightarrow> real \<Rightarrow> real"

subsection \<open>Helpers\<close>

definition bind_err :: "py_error + 'a \<Rightarrow> ('a \<Rightarrow> py_error + 'b) \<Rightarrow> py_error + 'b" where
  "bind_err m f = (case m of Inl e \<Rightarrow> Inl e | Inr x \<Rightarrow> f x)"

definition emit :: "effect \<Rightarrow> source \<Rightarrow> source" where
  "emit e s = s\<lparr>effects := effects s @ [e]\<rparr>"

definition new_effects :: "source \<Rightarrow> source \<Rightarrow> effect list" where
  "new_effects s s' = drop (length (effects s)) (effects s')"

text \<open>\<open>"{}".format(n)\<close> for an int: its decimal digits, with a sign when negative.\<close>

definition digit_char :: "nat \<Rightarrow> char" where
  "digit_char d = char_of (48 + d)"

fun str_nat :: "nat \<Rightarrow> string" where
  "str_nat n = (if n < 10 then [digit_char n] else str_nat (n div 10) @ [digit_char (n mod 10)])"

declare str_nat.simps [simp del]

definition str_int :: "int \<Rightarrow> string" where
  "str_int i = (if i < 0 then CHR ''-'' # str_nat (nat (- i)) else str_nat (nat i))"

text \<open>\<open>os.path.join\<close> of two components, on POSIX.\<close>

definition path_join :: "string \<Rightarrow> string \<Rightarrow> string" where
  "path_join a b =
     (if b \<noteq> [] \<and> hd b = CHR ''/'' then b
      else if a = [] \<or> last a = CHR ''/'' then a @ b
      else a @ ''/'' @ b)"

subsection \<open>The methods\<close>

definition online :: "camera_state \<Rightarrow> source \<Rightarrow> bool \<times> source" where
  "online c s =
     (if \<not> camera s then (False, s)
      else let s1 = emit (Camera Is_connected) s in
        if \<not> is_connected c then (False, s1)
        else (is_capturing c, emit (Camera Is_capturing) s1))"

definition get_init_dict :: "(string \<times> string) list \<Rightarrow> source \<Rightarrow> init_dict" where
  "get_init_dict base s =
     \<lparr>record_pointcloud_arg = record_pointcloud s,
      auto_exposure_arg = current_exposure_mode s,
      current_exposure_arg = current_exposure s,
      selected_usecase_arg = selected_usecase s,
      base_entries = base\<rparr>"

definition load_camera_state :: "camera_state \<Rightarrow> source \<Rightarrow> source" where
  "load_camera_state c s =
     (let (is_online, s1) = online c s in
      if \<not> is_online then emit (Log Error ''Can't get state, not online'') s1
      else
        let s2 = (emit (Camera Get_current_usecase) s1)\<lparr>selected_usecase := Some (current_usecase c)\<rparr>;
            s3 = (emit (Camera Get_exposure_mode) s2)\<lparr>current_exposure_mode := exposure_mode c\<rparr>;
            s4 = emit (Camera Get_exposure_limits) s3;
            low = fst (exposure_limits c);
            high = snd (exposure_limits c);
            s5 = (if current_exposure s4 > high then s4\<lparr>current_exposure := high\<rparr> else s4)
        in (case ui_exposure s5 of
              None \<Rightarrow> s5
            | Some w \<Rightarrow>
                s5\<lparr>ui_exposure :=
                     Some (w\<lparr>read_only := current_exposure_mode s5, minimum := low, maximum := high\<rparr>)\<rparr>))"

definition cleanup :: "source \<Rightarrow> source" where
  "cleanup s = (if camera s then (emit (Camera Close) s)\<lparr>camera := False\<rparr> else s)"

definition start_pointcloud_recording :: "string \<Rightarrow> source \<Rightarrow> py_error + source" where
  "start_pointcloud_recording rec_loc s =
     (if \<not> record_pointcloud s then Inr s
      else
        let filename =
              (if recording_reconnection_count s = 0 then ''pointcloud.rrf''
               else ''pointcloud_'' @ str_int (recording_reconnection_count s) @ ''.rrf'');
            video_path = path_join rec_loc filename
        in if \<not> camera s then Inl AttributeError
           else Inr (emit (Camera (Start_recording video_path)) s))"

definition stop_pointcloud_recording :: "source \<Rightarrow> py_error + source" where
  "stop_pointcloud_recording s =
     (if \<not> record_pointcloud s then Inr s
      else if \<not> camera s then Inl AttributeError
      else Inr (emit (Camera Stop_recording) s))"

definition on_disconnection :: "source \<Rightarrow> py_error + source" where
  "on_disconnection s =
     (if recording_directory s \<noteq> None \<and> record_pointcloud s
      then stop_pointcloud_recording s else Inr s)"

definition on_reconnection :: "source \<Rightarrow> py_error + source" where
  "on_reconnection s =
     (case recording_directory s of
        None \<Rightarrow> Inr s
      | Some d \<Rightarrow>
          if record_pointcloud s
          then start_pointcloud_recording d
                 (s\<lparr>recording_reconnection_count := recording_reconnection_count s + 1\<rparr>)
          else Inr s)"

definition set_usecase :: "camera_state \<Rightarrow> string \<Rightarrow> source \<Rightarrow> py_error + source" where
  "set_usecase c usecase s =
     (if \<not> camera s then Inl AttributeError
      else Inr (load_camera_state c (emit (Camera (Set_usecase usecase)) s)))"

definition set_exposure_delayed :: "int \<Rightarrow> source \<Rightarrow> source" where
  "set_exposure_delayed exposure s =
     emit (Notify_all (Picoflexx_set_exposure (3 / 10) exposure)) (s\<lparr>current_exposure := exposure\<rparr>)"

definition set_exposure :: "int \<Rightarrow> source \<Rightarrow> py_error + source" where
  "set_exposure exposure s =
     (if \<not> camera s then Inl AttributeError
      else Inr (emit (Camera (Set_exposure exposure)) s))"

definition set_exposure_mode :: "bool \<Rightarrow> bool \<Rightarrow> source \<Rightarrow> py_error + source" where
  "set_exposure_mode applied mode s =
     (if \<not> camera s then Inl AttributeError
      else
        let s1 = (emit (Camera (Set_exposure_mode mode)) s)\<lparr>current_exposure_mode := applied\<rparr>
        in Inr (case ui_exposure s1 of
                  None \<Rightarrow> s1
                | Some w \<Rightarrow> s1\<lparr>ui_exposure := Some (w\<lparr>read_only := mode\<rparr>)\<rparr>))"

definition init_device :: "init_replies \<Rightarrow> source \<Rightarrow> py_error + (bool \<times> source)" where
  "init_device r s =
     (if \<not> camera s then Inl AttributeError
      else
        let s0 = emit (Camera Initialize) s in
        if \<not> initialize_r r then Inr (False, s0)
        else
          let s1 = emit (Camera Is_connected) s0 in
          if \<not> connected_r r then Inr (False, emit (Log Debug ''Camera not connected'') s1)
          else
            let wanted_exposure_mode = current_exposure_mode s1 in
            bind_err
              (case selected_usecase s1 of
                 None \<Rightarrow> Inr s1
               | Some u \<Rightarrow> set_usecase (usecase_state r) u s1)
              (\<lambda>s2. bind_err (set_exposure_mode (applied_mode r) wanted_exposure_mode s2)
              (\<lambda>s3. bind_err
                 (if \<not> current_exposure_mode s3 \<and> current_exposure s3 \<noteq> 0
                  then bind_err (set_exposure (current_exposure s3) s3)
                         (\<lambda>s'. Inr (emit (Notify_all
                                  (Picoflexx_set_exposure (3 / 10) (current_exposure s'))) s'))
                  else Inr s3)
              (\<lambda>s4. bind_err (on_reconnection (load_camera_state (final_state r) s4))
              (\<lambda>s5. Inr (True, emit (Notify_all Picoflexx_reconnected) s5))))))"

definition save_recording_metadata :: "string \<Rightarrow> source \<Rightarrow> source" where
  "save_recording_metadata rec_path s =
     emit (Write_key_value_file (path_join rec_path ''info_picoflexx.csv'') ''a''
             [(''Royale Timestamp Offset'', royale_timestamp_offset s)] True) s"

definition on_notify :: "notification \<Rightarrow> source \<Rightarrow> py_error + source" where
  "on_notify n s =
     (if \<not> menu s then Inr s
      else case n of
        Picoflexx_set_exposure d e \<Rightarrow> set_exposure e s
      | Recording_started rec_path \<Rightarrow>
          let s1 = s\<lparr>switch_record_pointcloud := map_option (\<lambda>_. True) (switch_record_pointcloud s)\<rparr>;
              s2 = s1\<lparr>ui_usecase := map_option (\<lambda>_. True) (ui_usecase s1)\<rparr>;
              s3 = s2\<lparr>frame_count := - 1\<rparr>;
              s4 = s3\<lparr>recording_directory := Some rec_path\<rparr>;
              s5 = s4\<lparr>recording_reconnection_count := 0\<rparr>
          in start_pointcloud_recording rec_path (save_recording_metadata rec_path s5)
      | Recording_stopped \<Rightarrow>
          let s1 = s\<lparr>switch_record_pointcloud := map_option (\<lambda>_. False) (switch_record_pointcloud s)\<rparr>;
              s2 = s1\<lparr>ui_usecase := map_option (\<lambda>_. False) (ui_usecase s1)\<rparr>
          in bind_err (stop_pointcloud_recording s2)
               (\<lambda>s3. Inr (s3\<lparr>recording_directory := None\<rparr>))
      | _ \<Rightarrow> Inr s)"

definition attempt_reconnect :: "init_replies \<Rightarrow> source \<Rightarrow> py_error + source" where
  "attempt_reconnect r s =
     (let s0 = emit (Log Debug ''attempt_reconnect()'') s in
      if \<not> camera s0 then Inr (emit (Log Warning ''Camera wasn't connected at all?'') s0)
      else
        bind_err
          (if reconnection_attempts s0 = 0
           then bind_err (on_disconnection s0)
                  (\<lambda>s'. Inr (emit (Notify_all Picoflexx_disconnected) s'))
           else Inr s0)
          (\<lambda>s1.
             let s2 = s1\<lparr>reconnection_attempts := reconnection_attempts s1 + 1\<rparr> in
             bind_err (init_device r s2)
               (\<lambda>(ok, s3).
                  if ok
                  then Inr ((emit (Log Info (''Reconnected after ''
                               @ str_int (reconnection_attempts s3) @ '' attempts!'')) s3)
                            \<lparr>reconnection_attempts := 0\<rparr>)
                  else Inr s3)))"

definition get_frames ::
  "float_arith \<Rightarrow> poll \<Rightarrow> source \<Rightarrow> py_error + (frame_pair option \<times> source)" where
  "get_frames A p s =
     (if \<not> camera s then Inl AttributeError
      else
        let s0 = emit (Camera Get_frame) s in
        case frame_r p of
          None \<Rightarrow>
            let s1 = s0\<lparr>missed_frame_count := missed_frame_count s0 + 1\<rparr> in
            if missed_frame_count s1 > 45 \<or> fsub A (time_check p) (last_frame_time s1) > 5
            then bind_err (attempt_reconnect (reconnect_r p) s1)
                   (\<lambda>s2. Inr (None, s2\<lparr>missed_frame_count := 0, last_frame_time := time_reset p\<rparr>))
            else Inr (None, s1)
        | Some frames \<Rightarrow>
            let s1 = s0\<lparr>missed_frame_count := 0, last_frame_time := time_success p\<rparr>;
                off = (case royale_timestamp_offset s1 of
                         None \<Rightarrow> fsub A (pupil_timestamp p) (time_offset p)
                       | Some x \<Rightarrow> x);
                s2 = s1\<lparr>royale_timestamp_offset := Some off\<rparr>;
                frames1 = frames\<lparr>ir := (ir frames)\<lparr>timestamp := fadd A (timestamp (ir frames)) off\<rparr>\<rparr>;
                frames2 = frames1\<lparr>depth := (depth frames1)\<lparr>timestamp := fadd A (timestamp (depth frames1)) off\<rparr>\<rparr>
            in Inr (Some frames2, s2\<lparr>frame_count := frame_count s2 + 1\<rparr>))"

text \<open>
  The constructor: \<open>now\<close> is what \<open>time()\<close> returns, \<open>r\<close> what the camera answers to the
  \<open>init_device\<close> call that ends it. The base classes' constructor and the entries of the
  dictionary that go to it are not part of the file. \<open>self.menu\<close> is unset until
  \<open>init_ui\<close>.
\<close>

definition init :: "real \<Rightarrow> init_replies \<Rightarrow> init_dict \<Rightarrow> py_error + source" where
  "init now r d =
     (let s = \<lparr>camera = True,
               selected_usecase = selected_usecase_arg d,
               frame_count = 0,
               record_pointcloud = record_pointcloud_arg d,
               royale_timestamp_offset = None,
               last_frame_time = now,
               missed_frame_count = 0,
               reconnection_attempts = 0,
               recording_reconnection_count = 0,
               ui_exposure = None,
               ui_usecase = None,
               switch_record_pointcloud = None,
               current_exposure = current_exposure_arg d,
               current_exposure_mode = auto_exposure_arg d,
               recording_directory = None,
               menu = False,
               effects = []\<rparr>
      in bind_err (init_device r s) (\<lambda>(ok, s'). Inr s'))"

definition default_init_dict :: init_dict where
  "default_init_dict =
     \<lparr>record_pointcloud_arg = False, auto_exposure_arg = False,
      current_exposure_arg = 2000, selected_usecase_arg = None, base_entries = []\<rparr>"

text \<open>The host calls \<open>get_frames\<close> once per tick; \<open>ticks\<close> is a run of such calls.\<close>

fun ticks ::
  "float_arith \<Rightarrow> poll list \<Rightarrow> source \<Rightarrow> py_error + (frame_pair option list \<times> source)" where
  "ticks A [] s = Inr ([], s)"
| "ticks A (p # ps) s =
     bind_err (get_frames A p s)
       (\<lambda>(f, s1). bind_err (ticks A ps s1) (\<lambda>(fs, s2). Inr (f # fs, s2)))"

text \<open>A run of reconnection attempts, one per element of the list of camera replies.\<close>

fun reconnects :: "init_replies list \<Rightarrow> source \<Rightarrow> py_error + source" where
  "reconnects [] s = Inr s"
| "reconnects (r # rs) s = bind_err (attempt_reconnect r s) (reconnects rs)"

subsection \<open>Auxiliary notions for the statements\<close>

text \<open>
  \<open>setup_effect\<close> holds of what applying the settings does to the outside: camera queries
  and settings, the exposure notification and the error line of \<open>load_camera_state\<close>.
  \<open>only_adds P s s'\<close> says that \<open>s'\<close> is \<open>s\<close> with more effects, all satisfying \<open>P\<close>, and
  possibly other settings. \<open>opened\<close> is the list of paths of the \<open>start_recording\<close> calls
  among some effects. \<open>succeeded\<close> holds of the replies that make \<open>init_device\<close> return
  \<open>True\<close>, \<open>recording\<close> of a source that records segments, \<open>trigger\<close> when a timeout
  in this state reaches a threshold; \<open>segment_path d n\<close> is the path of segment \<open>n\<close>.
\<close>

fun setup_effect :: "effect \<Rightarrow> bool" where
  "setup_effect (Camera Is_connected) = True"
| "setup_effect (Camera Is_capturing) = True"
| "setup_effect (Camera Get_current_usecase) = True"
| "setup_effect (Camera Get_exposure_mode) = True"
| "setup_effect (Camera Get_exposure_limits) = True"
| "setup_effect (Camera (Set_usecase u)) = True"
| "setup_effect (Camera (Set_exposure e)) = True"
| "setup_effect (Camera (Set_exposure_mode m)) = True"
| "setup_effect (Notify_all (Picoflexx_set_exposure d e)) = True"
| "setup_effect (Log Error m) = True"
| "setup_effect _ = False"

definition only_adds :: "(effect \<Rightarrow> bool) \<Rightarrow> source \<Rightarrow> source \<Rightarrow> bool" where
  "only_adds P s s' \<longleftrightarrow>
     camera s' = camera s \<and> record_pointcloud s' = record_pointcloud s \<and>
     royale_timestamp_offset s' = royale_timestamp_offset s \<and>
     recording_directory s' = recording_directory s \<and> menu s' = menu s \<and>
     reconnection_attempts s' = reconnection_attempts s \<and>
     recording_reconnection_count s' = recording_reconnection_count s \<and>
     missed_frame_count s' = missed_frame_count s \<and>
     last_frame_time s' = last_frame_time s \<and> frame_count s' = frame_count s \<and>
     ui_usecase s' = ui_usecase s \<and> switch_record_pointcloud s' = switch_record_pointcloud s \<and>
     (\<exists>xs. effects s' = effects s @ xs \<and> list_all P xs)"

fun opened :: "effect list \<Rightarrow> string list" where
  "opened [] = []"
| "opened (Camera (Start_recording p) # xs) = p # opened xs"
| "opened (e # xs) = opened xs"

definition succeeded :: "init_replies \<Rightarrow> bool" where
  "succeeded r \<longleftrightarrow> initialize_r r \<and> connected_r r"

definition segment_path :: "string \<Rightarrow> int \<Rightarrow> string" where
  "segment_path d n =
     path_join d (if n = 0 then ''pointcloud.rrf'' else ''pointcloud_'' @ str_int n @ ''.rrf'')"

definition recording :: "source \<Rightarrow> bool" where
  "recording s \<longleftrightarrow> recording_directory s \<noteq> None \<and> record_pointcloud s"

definition trigger :: "float_arith \<Rightarrow> poll \<Rightarrow> source \<Rightarrow> bool" where
  "trigger A p s \<longleftrightarrow>
     missed_frame_count s + 1 > 45 \<or> fsub A (time_check p) (last_frame_time s) > 5"

subsection \<open>Concrete inputs\<close>

text \<open>
  A source as the constructor leaves it, with the menu built, the point cloud option on
  and a remembered exposure of 2000; a camera that is connected and capturing, whose
  exposure limits are 100 and 1000; and the replies of an \<open>init_device\<close> that succeeds
  and of one that fails.
\<close>

definition example_source :: source where
  "example_source =
     \<lparr>camera = True, selected_usecase = None, frame_count = 0, record_pointcloud = True,
      royale_timestamp_offset = None, last_frame_time = 0, missed_frame_count = 0,
      reconnection_attempts = 0, recording_reconnection_count = 0, ui_exposure = None,
      ui_usecase = None, switch_record_pointcloud = None, current_exposure = 2000,
      current_exposure_mode = False, recording_directory = None, menu = True, effects = []\<rparr>"

definition example_camera_state :: camera_state where
  "example_camera_state =
     \<lparr>is_connected = True, is_capturing = True, current_usecase = ''MODE_9_5FPS_2000'',
      exposure_mode = False, exposure_limits = (100, 1000)\<rparr>"

definition example_replies :: init_replies where
  "example_replies =
     \<lparr>initialize_r = True, connected_r = True, usecase_state = example_camera_state,
      applied_mode = False, final_state = example_camera_state\<rparr>"

definition failing_replies :: init_replies where
  "failing_replies = example_replies\<lparr>initialize_r := False\<rparr>"

text \<open>
  Arithmetic that does not round. On the operands of the concrete runs below (integers
  below 2000, halves and multiples of 1/128) double arithmetic does not round either, so
  this is what the code computes there.
\<close>

definition exact_arith :: float_arith where
  "exact_arith = \<lparr>fsub = (\<lambda>x y. x - y), fadd = (\<lambda>x y. x + y)\<rparr>"

text \<open>A poll that times out, every clock reading of the call being \<open>t\<close>.\<close>

definition timeout_poll :: "real \<Rightarrow> poll" where
  "timeout_poll t =
     \<lparr>frame_r = None, time_check = t, reconnect_r = failing_replies, time_reset = t,
      time_success = t, pupil_timestamp = t, time_offset = t\<rparr>"

text \<open>
  A poll that returns a frame pair with device timestamp \<open>ts\<close>, while the Pupil clock
  reads \<open>pupil\<close> and every call of \<open>time()\<close> returns \<open>t\<close>.
\<close>

definition frame_poll :: "real \<Rightarrow> real \<Rightarrow> real \<Rightarrow> poll" where
  "frame_poll ts pupil t =
     \<lparr>frame_r = Some \<lparr>ir = \<lparr>timestamp = ts, exposure_times = []\<rparr>,
                       depth = \<lparr>timestamp = ts, exposure_times = [1000, 2000, 2000]\<rparr>\<rparr>,
      time_check = t, reconnect_r = example_replies, time_reset = t, time_success = t,
      pupil_timestamp = pupil, time_offset = t\<rparr>"

section \<open>Auxiliary lemmas\<close>

lemma exact_arith_simps [simp]:
  "fsub exact_arith x y = x - y" "fadd exact_arith x y = x + y"
  by (simp_all add: exact_arith_def)

lemma online_True: "camera s \<Longrightarrow> is_connected c \<Longrightarrow> is_capturing c \<Longrightarrow>
  online c s = (True, emit (Camera Is_capturing) (emit (Camera Is_connected) s))"
  by (simp add: online_def Let_def emit_def)

lemma emit_fields [simp]:
  "camera (emit e s) = camera s"
  "selected_usecase (emit e s) = selected_usecase s"
  "frame_count (emit e s) = frame_count s"
  "record_pointcloud (emit e s) = record_pointcloud s"
  "royale_timestamp_offset (emit e s) = royale_timestamp_offset s"
  "last_frame_time (emit e s) = last_frame_time s"
  "missed_frame_count (emit e s) = missed_frame_count s"
  "reconnection_attempts (emit e s) = reconnection_attempts s"
  "recording_reconnection_count (emit e s) = recording_reconnection_count s"
  "ui_exposure (emit e s) = ui_exposure s"
  "ui_usecase (emit e s) = ui_usecase s"
  "switch_record_pointcloud (emit e s) = switch_record_pointcloud s"
  "current_exposure (emit e s) = current_exposure s"
  "current_exposure_mode (emit e s) = current_exposure_mode s"
  "recording_directory (emit e s) = recording_directory s"
  "menu (emit e s) = menu s"
  "effects (emit e s) = effects s @ [e]"
  by (simp_all add: emit_def)

lemma load_camera_state_exposure:
  "camera s \<Longrightarrow> is_connected c \<Longrightarrow> is_capturing c \<Longrightarrow>
   current_exposure (load_camera_state c s) = min (current_exposure s) (snd (exposure_limits c))"
  by (simp add: load_camera_state_def online_True Let_def split: option.splits)

lemma load_camera_state_camera [simp]: "camera (load_camera_state c s) = camera s"
  by (simp add: load_camera_state_def online_def Let_def split: option.splits prod.splits bool.splits if_splits)

lemma bind_err_Inr [simp]: "bind_err (Inr x) f = f x"
  by (simp add: bind_err_def)

lemma bind_err_Inl [simp]: "bind_err (Inl e) f = Inl e"
  by (simp add: bind_err_def)

lemma only_adds_refl: "only_adds P s s"
  by (simp add: only_adds_def)

lemma only_adds_trans: "only_adds P s s1 \<Longrightarrow> only_adds P s1 s2 \<Longrightarrow> only_adds P s s2"
  by (auto simp add: only_adds_def)

lemma only_adds_emit: "P e \<Longrightarrow> only_adds P s (emit e s)"
  by (simp add: only_adds_def)

lemma only_adds_emit': "P e \<Longrightarrow> only_adds P s s1 \<Longrightarrow> only_adds P s (emit e s1)"
  by (auto simp add: only_adds_def)

lemma only_adds_load_camera_state: "only_adds setup_effect s (load_camera_state c s)"
  by (simp add: only_adds_def load_camera_state_def online_def Let_def emit_def split: option.splits)

lemma only_adds_set_usecase:
  "camera s \<Longrightarrow> \<exists>s'. set_usecase c u s = Inr s' \<and> only_adds setup_effect s s'"
  unfolding set_usecase_def
  by (auto intro!: only_adds_trans [OF only_adds_emit only_adds_load_camera_state])

lemma only_adds_set_exposure_mode:
  "camera s \<Longrightarrow> \<exists>s'. set_exposure_mode a m s = Inr s' \<and> only_adds setup_effect s s'"
  by (simp add: set_exposure_mode_def only_adds_def Let_def emit_def split: option.splits)

lemma only_adds_set_exposure:
  "camera s \<Longrightarrow> \<exists>s'. set_exposure e s = Inr s' \<and> only_adds setup_effect s s'"
  by (simp add: set_exposure_def only_adds_def emit_def)

lemma only_adds_camera: "only_adds P s s' \<Longrightarrow> camera s' = camera s"
  by (simp add: only_adds_def)

lemma on_reconnection_result:
  "camera s \<Longrightarrow>
   on_reconnection s =
     Inr (case recording_directory s of
            None \<Rightarrow> s
          | Some d \<Rightarrow>
              if record_pointcloud s
              then emit (Camera (Start_recording (path_join d
                     (if recording_reconnection_count s + 1 = 0 then ''pointcloud.rrf''
                      else ''pointcloud_'' @ str_int (recording_reconnection_count s + 1) @ ''.rrf''))))
                     (s\<lparr>recording_reconnection_count := recording_reconnection_count s + 1\<rparr>)
              else s)"
  by (simp add: on_reconnection_def start_pointcloud_recording_def Let_def split: option.splits)

lemma init_device_fail:
  "camera s \<Longrightarrow> \<not> (initialize_r r \<and> connected_r r) \<Longrightarrow>
   init_device r s =
     Inr (False, if initialize_r r
                 then emit (Log Debug ''Camera not connected'')
                        (emit (Camera Is_connected) (emit (Camera Initialize) s))
                 else emit (Camera Initialize) s)"
  by (auto simp add: init_device_def Let_def)

lemma init_device_success:
  assumes "camera s" "initialize_r r" "connected_r r"
  shows "\<exists>s4. only_adds setup_effect (emit (Camera Initialize) s) s4 \<and>
           init_device r s =
             bind_err (on_reconnection (load_camera_state (final_state r) s4))
               (\<lambda>s5. Inr (True, emit (Notify_all Picoflexx_reconnected) s5))"
proof -
  let ?s0 = "emit (Camera Initialize) s"
  let ?s1 = "emit (Camera Is_connected) ?s0"
  have a1: "only_adds setup_effect ?s0 ?s1"
    by (simp add: only_adds_emit)
  have c1: "camera ?s1" using assms by simp
  obtain s2 where s2: "(case selected_usecase ?s1 of None \<Rightarrow> Inr ?s1
                        | Some u \<Rightarrow> set_usecase (usecase_state r) u ?s1) = Inr s2"
    and a2: "only_adds setup_effect ?s1 s2"
    using only_adds_set_usecase [OF c1] only_adds_refl
    by (cases "selected_usecase ?s1") fastforce+
  have c2: "camera s2" using a2 c1 by (simp add: only_adds_camera)
  obtain s3 where s3: "set_exposure_mode (applied_mode r) (current_exposure_mode ?s1) s2 = Inr s3"
    and a3: "only_adds setup_effect s2 s3"
    using only_adds_set_exposure_mode [OF c2] by blast
  have c3: "camera s3" using a3 c2 by (simp add: only_adds_camera)
  obtain s4 where s4: "(if \<not> current_exposure_mode s3 \<and> current_exposure s3 \<noteq> 0
                  then bind_err (set_exposure (current_exposure s3) s3)
                         (\<lambda>s'. Inr (emit (Notify_all
                                  (Picoflexx_set_exposure (3 / 10) (current_exposure s'))) s'))
                  else Inr s3) = Inr s4"
    and a4: "only_adds setup_effect s3 s4"
  proof (cases "\<not> current_exposure_mode s3 \<and> current_exposure s3 \<noteq> 0")
    case True
    obtain s' where "set_exposure (current_exposure s3) s3 = Inr s'" "only_adds setup_effect s3 s'"
      using only_adds_set_exposure [OF c3] by blast
    then show ?thesis using True that
      by (simp add: only_adds_emit')
  next
    case False
    show ?thesis
      by (rule that [of s3]) (use False in \<open>auto simp add: only_adds_refl\<close>)
  qed
  have "only_adds setup_effect ?s0 s4"
    using a1 a2 a3 a4 by (blast intro: only_adds_trans)
  moreover have "init_device r s =
             bind_err (on_reconnection (load_camera_state (final_state r) s4))
               (\<lambda>s5. Inr (True, emit (Notify_all Picoflexx_reconnected) s5))"
    using assms s2 s3 s4 by (simp add: init_device_def Let_def)
  ultimately show ?thesis by blast
qed

lemma opened_append [simp]: "opened (xs @ ys) = opened xs @ opened ys"
  by (induction xs rule: opened.induct) simp_all

lemma setup_opened: "list_all setup_effect xs \<Longrightarrow> opened xs = []"
  by (induction xs rule: opened.induct) simp_all

lemma setup_not_mem:
  "list_all setup_effect xs \<Longrightarrow> \<not> setup_effect e \<Longrightarrow> e \<notin> set xs"
  by (auto simp add: list_all_iff)

lemma init_device_spec:
  assumes "camera s"
  shows "\<exists>s' post. init_device r s = Inr (succeeded r, s') \<and>
           camera s' \<and> record_pointcloud s' = record_pointcloud s \<and>
           royale_timestamp_offset s' = royale_timestamp_offset s \<and>
           recording_directory s' = recording_directory s \<and> menu s' = menu s \<and>
           missed_frame_count s' = missed_frame_count s \<and>
           last_frame_time s' = last_frame_time s \<and> frame_count s' = frame_count s \<and>
           reconnection_attempts s' = reconnection_attempts s \<and>
           recording_reconnection_count s' =
             (if succeeded r \<and> recording s then recording_reconnection_count s + 1
              else recording_reconnection_count s) \<and>
           effects s' = effects s @ Camera Initialize # post \<and>
           Log Debug ''attempt_reconnect()'' \<notin> set post \<and>
           Notify_all Picoflexx_disconnected \<notin> set post \<and>
           Camera Initialize \<notin> set post \<and>
           opened post =
             (if succeeded r \<and> recording s
              then [segment_path (the (recording_directory s)) (recording_reconnection_count s + 1)]
              else []) \<and>
           count_list post (Notify_all Picoflexx_reconnected) = (if succeeded r then 1 else 0)"
proof (cases "succeeded r")
  case False
  then show ?thesis
    using assms init_device_fail [of s r]
    by (auto simp add: succeeded_def)
next
  case True
  then have ok: "initialize_r r" "connected_r r" by (simp_all add: succeeded_def)
  obtain s4 where a: "only_adds setup_effect (emit (Camera Initialize) s) s4"
    and eq: "init_device r s =
             bind_err (on_reconnection (load_camera_state (final_state r) s4))
               (\<lambda>s5. Inr (True, emit (Notify_all Picoflexx_reconnected) s5))"
    using init_device_success [OF assms ok] by blast
  let ?s5 = "load_camera_state (final_state r) s4"
  have b: "only_adds setup_effect (emit (Camera Initialize) s) ?s5"
    using a only_adds_load_camera_state by (rule only_adds_trans)
  then obtain xs where xs: "effects ?s5 = effects s @ Camera Initialize # xs" "list_all setup_effect xs"
    by (auto simp add: only_adds_def)
  have c5: "camera ?s5" using assms only_adds_camera [OF b] by simp
  have m: "Log Debug ''attempt_reconnect()'' \<notin> set xs" "Notify_all Picoflexx_disconnected \<notin> set xs"
      "Camera Initialize \<notin> set xs" "count_list xs (Notify_all Picoflexx_reconnected) = 0"
      "opened xs = []"
    using xs(2) by (simp_all add: setup_not_mem setup_opened)
  show ?thesis
    using True b c5 xs(1) m
    by (cases "recording_directory s")
      (auto simp add: eq on_reconnection_result only_adds_def recording_def segment_path_def)
qed

lemma on_disconnection_result:
  "camera s \<Longrightarrow>
   on_disconnection s = Inr (if recording s then emit (Camera Stop_recording) s else s)"
  by (simp add: on_disconnection_def stop_pointcloud_recording_def recording_def)

lemma attempt_reconnect_no_camera:
  "\<not> camera s \<Longrightarrow>
   attempt_reconnect r s =
     Inr (emit (Log Warning ''Camera wasn't connected at all?'')
            (emit (Log Debug ''attempt_reconnect()'') s))"
  by (simp add: attempt_reconnect_def Let_def)

lemma attempt_reconnect_spec:
  assumes "camera s"
  shows "\<exists>s' post. attempt_reconnect r s = Inr s' \<and>
           camera s' \<and> record_pointcloud s' = record_pointcloud s \<and>
           royale_timestamp_offset s' = royale_timestamp_offset s \<and>
           recording_directory s' = recording_directory s \<and> menu s' = menu s \<and>
           missed_frame_count s' = missed_frame_count s \<and>
           last_frame_time s' = last_frame_time s \<and> frame_count s' = frame_count s \<and>
           reconnection_attempts s' = (if succeeded r then 0 else reconnection_attempts s + 1) \<and>
           recording_reconnection_count s' =
             (if succeeded r \<and> recording s then recording_reconnection_count s + 1
              else recording_reconnection_count s) \<and>
           effects s' = effects s @ Log Debug ''attempt_reconnect()'' #
             (if reconnection_attempts s = 0
              then (if recording s then [Camera Stop_recording] else []) @
                   [Notify_all Picoflexx_disconnected]
              else []) @ Camera Initialize # post \<and>
           Log Debug ''attempt_reconnect()'' \<notin> set post \<and>
           Notify_all Picoflexx_disconnected \<notin> set post \<and>
           Camera Initialize \<notin> set post \<and>
           opened post =
             (if succeeded r \<and> recording s
              then [segment_path (the (recording_directory s)) (recording_reconnection_count s + 1)]
              else []) \<and>
           count_list post (Notify_all Picoflexx_reconnected) = (if succeeded r then 1 else 0) \<and>
           (succeeded r \<longrightarrow>
              Log Info (''Reconnected after '' @ str_int (reconnection_attempts s + 1)
                          @ '' attempts!'') \<in> set post)"
proof -
  let ?s0 = "emit (Log Debug ''attempt_reconnect()'') s"
  let ?s1 = "if reconnection_attempts s = 0
             then emit (Notify_all Picoflexx_disconnected)
                    (if recording s then emit (Camera Stop_recording) ?s0 else ?s0)
             else ?s0"
  let ?s2 = "?s1\<lparr>reconnection_attempts := reconnection_attempts ?s1 + 1\<rparr>"
  have c0: "camera ?s0" using assms by simp
  have r0: "recording ?s0 = recording s" by (simp add: recording_def)
  have pre: "(if reconnection_attempts ?s0 = 0
           then bind_err (on_disconnection ?s0)
                  (\<lambda>s'. Inr (emit (Notify_all Picoflexx_disconnected) s'))
           else Inr ?s0) = Inr ?s1"
    using on_disconnection_result [OF c0] by (simp add: r0)
  have c2: "camera ?s2" using assms by simp
  obtain s3 post where s3: "init_device r ?s2 = Inr (succeeded r, s3)"
    and k: "camera s3" "record_pointcloud s3 = record_pointcloud ?s2"
           "royale_timestamp_offset s3 = royale_timestamp_offset ?s2"
           "recording_directory s3 = recording_directory ?s2" "menu s3 = menu ?s2"
           "missed_frame_count s3 = missed_frame_count ?s2"
           "last_frame_time s3 = last_frame_time ?s2" "frame_count s3 = frame_count ?s2"
           "reconnection_attempts s3 = reconnection_attempts ?s2"
           "recording_reconnection_count s3 =
             (if succeeded r \<and> recording ?s2 then recording_reconnection_count ?s2 + 1
              else recording_reconnection_count ?s2)"
    and e: "effects s3 = effects ?s2 @ Camera Initialize # post"
    and p: "Log Debug ''attempt_reconnect()'' \<notin> set post"
           "Notify_all Picoflexx_disconnected \<notin> set post"
           "Camera Initialize \<notin> set post"
           "opened post =
             (if succeeded r \<and> recording ?s2
              then [segment_path (the (recording_directory ?s2)) (recording_reconnection_count ?s2 + 1)]
              else [])"
           "count_list post (Notify_all Picoflexx_reconnected) = (if succeeded r then 1 else 0)"
    using init_device_spec [OF c2, of r] by blast
  have r2: "recording ?s2 = recording s" by (simp add: recording_def)
  have f2: "record_pointcloud ?s2 = record_pointcloud s"
    "royale_timestamp_offset ?s2 = royale_timestamp_offset s"
    "recording_directory ?s2 = recording_directory s" "menu ?s2 = menu s"
    "missed_frame_count ?s2 = missed_frame_count s"
    "last_frame_time ?s2 = last_frame_time s" "frame_count ?s2 = frame_count s"
    "reconnection_attempts ?s2 = reconnection_attempts s + 1"
    "recording_reconnection_count ?s2 = recording_reconnection_count s"
    by simp_all
  have e2: "effects ?s2 = effects s @ Log Debug ''attempt_reconnect()'' #
             (if reconnection_attempts s = 0
              then (if recording s then [Camera Stop_recording] else []) @
                   [Notify_all Picoflexx_disconnected]
              else [])"
    by simp
  let ?info = "Log Info (''Reconnected after '' @ str_int (reconnection_attempts s + 1) @ '' attempts!'')"
  let ?s' = "if succeeded r then (emit ?info s3)\<lparr>reconnection_attempts := 0\<rparr> else s3"
  let ?post = "if succeeded r then post @ [?info] else post"
  have res: "attempt_reconnect r s = Inr ?s'"
    using assms s3 k(9) on_disconnection_result [OF c0]
    by (cases "reconnection_attempts s = 0"; cases "recording s"; cases "succeeded r")
       (simp_all add: attempt_reconnect_def Let_def r0)
  have "effects ?s' = effects s @ Log Debug ''attempt_reconnect()'' #
             (if reconnection_attempts s = 0
              then (if recording s then [Camera Stop_recording] else []) @
                   [Notify_all Picoflexx_disconnected]
              else []) @ Camera Initialize # ?post"
    using e e2 by simp
  moreover have "Log Debug ''attempt_reconnect()'' \<notin> set ?post"
           "Notify_all Picoflexx_disconnected \<notin> set ?post"
           "Camera Initialize \<notin> set ?post"
           "opened ?post =
             (if succeeded r \<and> recording s
              then [segment_path (the (recording_directory s)) (recording_reconnection_count s + 1)]
              else [])"
           "count_list ?post (Notify_all Picoflexx_reconnected) = (if succeeded r then 1 else 0)"
           "succeeded r \<longrightarrow> ?info \<in> set ?post"
    using p by (simp_all add: r2 f2)
  moreover have "camera ?s'" "record_pointcloud ?s' = record_pointcloud s"
           "royale_timestamp_offset ?s' = royale_timestamp_offset s"
           "recording_directory ?s' = recording_directory s" "menu ?s' = menu s"
           "missed_frame_count ?s' = missed_frame_count s"
           "last_frame_time ?s' = last_frame_time s" "frame_count ?s' = frame_count s"
           "reconnection_attempts ?s' = (if succeeded r then 0 else reconnection_attempts s + 1)"
           "recording_reconnection_count ?s' =
             (if succeeded r \<and> recording s then recording_reconnection_count s + 1
              else recording_reconnection_count s)"
    using k by (simp_all add: r2 f2)
  ultimately show ?thesis using res by blast
qed

lemma get_frames_success:
  "camera s \<Longrightarrow> frame_r p = Some f \<Longrightarrow>
   get_frames A p s =
     (let off = (case royale_timestamp_offset s of
                   None \<Rightarrow> fsub A (pupil_timestamp p) (time_offset p) | Some x \<Rightarrow> x)
      in Inr (Some (f\<lparr>ir := (ir f)\<lparr>timestamp := fadd A (timestamp (ir f)) off\<rparr>,
                      depth := (depth f)\<lparr>timestamp := fadd A (timestamp (depth f)) off\<rparr>\<rparr>),
              (emit (Camera Get_frame) s)
                \<lparr>missed_frame_count := 0, last_frame_time := time_success p,
                 royale_timestamp_offset := Some off, frame_count := frame_count s + 1\<rparr>))"
  by (simp add: get_frames_def Let_def)

lemma get_frames_miss:
  "camera s \<Longrightarrow> frame_r p = None \<Longrightarrow> \<not> trigger A p s \<Longrightarrow>
   get_frames A p s =
     Inr (None, (emit (Camera Get_frame) s)\<lparr>missed_frame_count := missed_frame_count s + 1\<rparr>)"
  by (simp add: get_frames_def Let_def trigger_def)

lemma get_frames_trigger:
  "camera s \<Longrightarrow> frame_r p = None \<Longrightarrow> trigger A p s \<Longrightarrow>
   get_frames A p s =
     bind_err (attempt_reconnect (reconnect_r p)
                 ((emit (Camera Get_frame) s)\<lparr>missed_frame_count := missed_frame_count s + 1\<rparr>))
       (\<lambda>s2. Inr (None, s2\<lparr>missed_frame_count := 0, last_frame_time := time_reset p\<rparr>))"
  by (simp add: get_frames_def Let_def trigger_def)

text \<open>What one call of \<open>get_frames\<close> does, in all three cases.\<close>

lemma get_frames_spec:
  assumes "camera s"
  shows "\<exists>res s' ys. get_frames A p s = Inr (res, s') \<and>
           camera s' \<and> record_pointcloud s' = record_pointcloud s \<and>
           recording_directory s' = recording_directory s \<and> menu s' = menu s \<and>
           res = map_option (\<lambda>f. f\<lparr>ir := (ir f)\<lparr>timestamp := fadd A (timestamp (ir f)) (the (royale_timestamp_offset s'))\<rparr>,
                      depth := (depth f)\<lparr>timestamp := fadd A (timestamp (depth f)) (the (royale_timestamp_offset s'))\<rparr>\<rparr>) (frame_r p) \<and>
           royale_timestamp_offset s' =
             (case frame_r p of None \<Rightarrow> royale_timestamp_offset s
              | Some f \<Rightarrow> (case royale_timestamp_offset s of
                   None \<Rightarrow> Some (fsub A (pupil_timestamp p) (time_offset p)) | Some x \<Rightarrow> Some x)) \<and>
           missed_frame_count s' =
             (if frame_r p = None \<and> \<not> trigger A p s then missed_frame_count s + 1 else 0) \<and>
           last_frame_time s' =
             (case frame_r p of Some f \<Rightarrow> time_success p
              | None \<Rightarrow> if trigger A p s then time_reset p else last_frame_time s) \<and>
           recording_reconnection_count s' =
             (if frame_r p = None \<and> trigger A p s \<and> succeeded (reconnect_r p) \<and> recording s
              then recording_reconnection_count s + 1 else recording_reconnection_count s) \<and>
           effects s' = effects s @ Camera Get_frame # ys \<and>
           count_list ys (Log Debug ''attempt_reconnect()'') =
             (if frame_r p = None \<and> trigger A p s then 1 else 0) \<and>
           opened ys =
             (if frame_r p = None \<and> trigger A p s \<and> succeeded (reconnect_r p) \<and> recording s
              then [segment_path (the (recording_directory s)) (recording_reconnection_count s + 1)]
              else []) \<and>
           count_list ys (Notify_all Picoflexx_reconnected) =
             (if frame_r p = None \<and> trigger A p s \<and> succeeded (reconnect_r p) then 1 else 0)"
proof (cases "frame_r p")
  case (Some f)
  then show ?thesis
    using assms by (simp add: get_frames_success Let_def split: option.splits)
next
  case None
  show ?thesis
  proof (cases "trigger A p s")
    case False
    then show ?thesis using assms None by (simp add: get_frames_miss)
  next
    case True
    let ?s1 = "(emit (Camera Get_frame) s)\<lparr>missed_frame_count := missed_frame_count s + 1\<rparr>"
    have c1: "camera ?s1" using assms by simp
    have r1: "recording ?s1 = recording s" by (simp add: recording_def)
    obtain s2 post where s2: "attempt_reconnect (reconnect_r p) ?s1 = Inr s2"
      and k: "camera s2" "record_pointcloud s2 = record_pointcloud ?s1"
           "royale_timestamp_offset s2 = royale_timestamp_offset ?s1"
           "recording_directory s2 = recording_directory ?s1" "menu s2 = menu ?s1"
           "recording_reconnection_count s2 =
             (if succeeded (reconnect_r p) \<and> recording ?s1 then recording_reconnection_count ?s1 + 1
              else recording_reconnection_count ?s1)"
      and e: "effects s2 = effects ?s1 @ Log Debug ''attempt_reconnect()'' #
             (if reconnection_attempts ?s1 = 0
              then (if recording ?s1 then [Camera Stop_recording] else []) @
                   [Notify_all Picoflexx_disconnected]
              else []) @ Camera Initialize # post"
      and q: "Log Debug ''attempt_reconnect()'' \<notin> set post"
           "opened post =
             (if succeeded (reconnect_r p) \<and> recording ?s1
              then [segment_path (the (recording_directory ?s1)) (recording_reconnection_count ?s1 + 1)]
              else [])"
           "count_list post (Notify_all Picoflexx_reconnected) = (if succeeded (reconnect_r p) then 1 else 0)"
      using attempt_reconnect_spec [OF c1, of "reconnect_r p"] by blast
    let ?ys = "Log Debug ''attempt_reconnect()'' #
             (if reconnection_attempts ?s1 = 0
              then (if recording ?s1 then [Camera Stop_recording] else []) @
                   [Notify_all Picoflexx_disconnected]
              else []) @ Camera Initialize # post"
    have "effects s2 = effects s @ Camera Get_frame # ?ys" using e by simp
    moreover have "count_list ?ys (Log Debug ''attempt_reconnect()'') = 1"
      using q(1) by simp
    moreover have "opened ?ys = (if succeeded (reconnect_r p) \<and> recording s
              then [segment_path (the (recording_directory s)) (recording_reconnection_count s + 1)]
              else [])"
      using q(2) by (simp add: r1)
    moreover have "count_list ?ys (Notify_all Picoflexx_reconnected) = (if succeeded (reconnect_r p) then 1 else 0)"
      using q(3) by simp
    ultimately show ?thesis
      using assms None True k
      apply (simp only: get_frames_trigger s2 bind_err_Inr)
      apply (rule exI [of _ None])
      apply (rule exI [of _ "s2\<lparr>missed_frame_count := 0, last_frame_time := time_reset p\<rparr>"])
      apply (rule exI [of _ ?ys])
      apply (simp add: r1)
      done
  qed
qed

lemma new_effects_append: "effects s' = effects s @ ys \<Longrightarrow> new_effects s s' = ys"
  by (simp add: new_effects_def)


lemma ticks_append:
  "ticks A (xs @ ys) s =
     bind_err (ticks A xs s) (\<lambda>(fs, s1). bind_err (ticks A ys s1) (\<lambda>(gs, s2). Inr (fs @ gs, s2)))"
proof (induction xs arbitrary: s)
  case Nil
  show ?case by (cases "ticks A ys s") (auto simp add: bind_err_def)
next
  case (Cons x xs)
  show ?case
    by (cases "get_frames A x s") (auto simp add: Cons bind_err_def split: sum.splits)
qed


lemma failed_reconnects:
  assumes "camera s" and "\<forall>r\<in>set rs. \<not> succeeded r"
  shows "\<exists>s' ys. reconnects rs s = Inr s' \<and> camera s' \<and>
           reconnection_attempts s' = reconnection_attempts s + int (length rs) \<and>
           effects s' = effects s @ ys \<and> count_list ys (Camera Initialize) = length rs"
  using assms
proof (induction rs arbitrary: s)
  case Nil
  then show ?case by simp
next
  case (Cons r rs)
  have nr: "\<not> succeeded r" using Cons.prems by simp
  obtain s1 post where a: "attempt_reconnect r s = Inr s1" and c1: "camera s1"
    and n1: "reconnection_attempts s1 = (if succeeded r then 0 else reconnection_attempts s + 1)"
    and e1: "effects s1 = effects s @ Log Debug ''attempt_reconnect()'' #
             (if reconnection_attempts s = 0
              then (if recording s then [Camera Stop_recording] else []) @
                   [Notify_all Picoflexx_disconnected]
              else []) @ Camera Initialize # post"
    and p1: "Camera Initialize \<notin> set post"
    using attempt_reconnect_spec [OF Cons.prems(1), of r] by blast
  have "\<exists>s' ys. reconnects rs s1 = Inr s' \<and> camera s' \<and>
           reconnection_attempts s' = reconnection_attempts s1 + int (length rs) \<and>
           effects s' = effects s1 @ ys \<and> count_list ys (Camera Initialize) = length rs"
    by (rule Cons.IH) (use c1 Cons.prems in simp_all)
  then obtain s' ys where r: "reconnects rs s1 = Inr s'" and c': "camera s'"
    and n': "reconnection_attempts s' = reconnection_attempts s1 + int (length rs)"
    and e': "effects s' = effects s1 @ ys" and k: "count_list ys (Camera Initialize) = length rs"
    by blast
  let ?pre = "Log Debug ''attempt_reconnect()'' #
             (if reconnection_attempts s = 0
              then (if recording s then [Camera Stop_recording] else []) @
                   [Notify_all Picoflexx_disconnected]
              else []) @ Camera Initialize # post"
  have "effects s' = effects s @ (?pre @ ys)" using e' e1 by simp
  moreover have "count_list (?pre @ ys) (Camera Initialize) = length (r # rs)"
    using k p1 by simp
  moreover have "reconnection_attempts s' = reconnection_attempts s + int (length (r # rs))"
    using n' n1 nr by simp
  moreover have "reconnects (r # rs) s = Inr s'" using a r by simp
  ultimately show ?case using c' by blast
qed

lemma ticks_offset:
  assumes "camera s" and "royale_timestamp_offset s = Some x"
  shows "\<exists>fs s'. ticks A ps s = Inr (fs, s') \<and> camera s' \<and> royale_timestamp_offset s' = Some x \<and>
           fs = map (\<lambda>p. map_option
                  (\<lambda>f. f\<lparr>ir := (ir f)\<lparr>timestamp := fadd A (timestamp (ir f)) x\<rparr>,
                          depth := (depth f)\<lparr>timestamp := fadd A (timestamp (depth f)) x\<rparr>\<rparr>)
                  (frame_r p)) ps"
  using assms
proof (induction ps arbitrary: s)
  case Nil
  then show ?case by simp
next
  case (Cons p ps)
  obtain res s1 where g: "get_frames A p s = Inr (res, s1)" and c1: "camera s1"
    and r: "res = map_option (\<lambda>f. f\<lparr>ir := (ir f)\<lparr>timestamp := fadd A (timestamp (ir f)) (the (royale_timestamp_offset s1))\<rparr>,
                      depth := (depth f)\<lparr>timestamp := fadd A (timestamp (depth f)) (the (royale_timestamp_offset s1))\<rparr>\<rparr>) (frame_r p)"
    and o: "royale_timestamp_offset s1 =
             (case frame_r p of None \<Rightarrow> royale_timestamp_offset s
              | Some f \<Rightarrow> (case royale_timestamp_offset s of
                   None \<Rightarrow> Some (fsub A (pupil_timestamp p) (time_offset p)) | Some x \<Rightarrow> Some x))"
    using get_frames_spec [OF Cons.prems(1), where p = p and A = A] by blast
  have o1: "royale_timestamp_offset s1 = Some x"
    using o Cons.prems(2) by (simp split: option.splits)
  obtain fs s' where t: "ticks A ps s1 = Inr (fs, s')" and k: "camera s'"
    "royale_timestamp_offset s' = Some x"
    "fs = map (\<lambda>p. map_option
                  (\<lambda>f. f\<lparr>ir := (ir f)\<lparr>timestamp := fadd A (timestamp (ir f)) x\<rparr>,
                          depth := (depth f)\<lparr>timestamp := fadd A (timestamp (depth f)) x\<rparr>\<rparr>)
                  (frame_r p)) ps"
    using Cons.IH [OF c1 o1] by blast
  show ?case
    using g t k r o1 by simp
qed

lemma ticks_timeouts:
  assumes "camera s" and "\<forall>q\<in>set qs. frame_r q = None"
  shows "\<exists>s'. ticks A qs s = Inr (map (\<lambda>q. None) qs, s') \<and> camera s' \<and>
           royale_timestamp_offset s' = royale_timestamp_offset s"
  using assms
proof (induction qs arbitrary: s)
  case Nil
  then show ?case by simp
next
  case (Cons q qs)
  have fn: "frame_r q = None" using Cons.prems(2) by simp
  obtain res s1 where g: "get_frames A q s = Inr (res, s1)" and c1: "camera s1"
    and r: "res = map_option (\<lambda>f. f\<lparr>ir := (ir f)\<lparr>timestamp := fadd A (timestamp (ir f)) (the (royale_timestamp_offset s1))\<rparr>,
                      depth := (depth f)\<lparr>timestamp := fadd A (timestamp (depth f)) (the (royale_timestamp_offset s1))\<rparr>\<rparr>) (frame_r q)"
    and o: "royale_timestamp_offset s1 =
             (case frame_r q of None \<Rightarrow> royale_timestamp_offset s
              | Some f \<Rightarrow> (case royale_timestamp_offset s of
                   None \<Rightarrow> Some (fsub A (pupil_timestamp q) (time_offset q)) | Some x \<Rightarrow> Some x))"
    using get_frames_spec [OF Cons.prems(1), where p = q and A = A] by blast
  have o1: "royale_timestamp_offset s1 = royale_timestamp_offset s" and r1: "res = None"
    using o r fn by simp_all
  have "\<exists>s'. ticks A qs s1 = Inr (map (\<lambda>q. None) qs, s') \<and> camera s' \<and>
           royale_timestamp_offset s' = royale_timestamp_offset s1"
    by (rule Cons.IH) (use c1 Cons.prems(2) in simp_all)
  then obtain s' where t: "ticks A qs s1 = Inr (map (\<lambda>q. None) qs, s')" and k: "camera s'"
    "royale_timestamp_offset s' = royale_timestamp_offset s1"
    by blast
  show ?case
    using g t k o1 r1 by simp
qed

lemma ticks_first_frame:
  assumes "camera s" and "royale_timestamp_offset s = None"
    and "\<forall>q\<in>set qs. frame_r q = None" and "frame_r p = Some f"
  shows "\<exists>fs s'. ticks A (qs @ p # ps) s = Inr (fs, s') \<and>
           royale_timestamp_offset s' = Some (fsub A (pupil_timestamp p) (time_offset p)) \<and>
           fs = map (\<lambda>q. map_option
                  (\<lambda>g. g\<lparr>ir := (ir g)\<lparr>timestamp := fadd A (timestamp (ir g))
                                          (fsub A (pupil_timestamp p) (time_offset p))\<rparr>,
                          depth := (depth g)\<lparr>timestamp := fadd A (timestamp (depth g))
                                          (fsub A (pupil_timestamp p) (time_offset p))\<rparr>\<rparr>)
                  (frame_r q)) (qs @ p # ps)"
proof -
  let ?off = "fsub A (pupil_timestamp p) (time_offset p)"
  let ?sh = "\<lambda>g. g\<lparr>ir := (ir g)\<lparr>timestamp := fadd A (timestamp (ir g)) ?off\<rparr>,
                   depth := (depth g)\<lparr>timestamp := fadd A (timestamp (depth g)) ?off\<rparr>\<rparr>"
  obtain s1 where t1: "ticks A qs s = Inr (map (\<lambda>q. None) qs, s1)" and c1: "camera s1"
    and o1: "royale_timestamp_offset s1 = None"
    using ticks_timeouts [OF assms(1,3), where A = A] assms(2) by auto
  let ?s2 = "(emit (Camera Get_frame) s1)
                \<lparr>missed_frame_count := 0, last_frame_time := time_success p,
                 royale_timestamp_offset := Some ?off, frame_count := frame_count s1 + 1\<rparr>"
  have g: "get_frames A p s1 = Inr (Some (?sh f), ?s2)"
    using c1 o1 assms(4) by (simp add: get_frames_success Let_def)
  have c2: "camera ?s2" and o2: "royale_timestamp_offset ?s2 = Some ?off"
    using c1 by simp_all
  obtain fs s' where t2: "ticks A ps ?s2 = Inr (fs, s')"
    and o': "royale_timestamp_offset s' = Some ?off"
    and fs: "fs = map (\<lambda>q. map_option ?sh (frame_r q)) ps"
    using ticks_offset [OF c2 o2, where ps = ps and A = A] by blast
  have m: "map (\<lambda>q. None) qs = map (\<lambda>q. map_option ?sh (frame_r q)) qs"
    using assms(3) by simp
  have "ticks A (qs @ p # ps) s = Inr (map (\<lambda>q. None) qs @ Some (?sh f) # fs, s')"
    by (simp add: ticks_append t1 g t2)
  then have e: "ticks A (qs @ p # ps) s =
      Inr (map (\<lambda>q. map_option ?sh (frame_r q)) (qs @ p # ps), s')"
    unfolding m fs using assms(4) by simp
  show ?thesis
    apply (rule exI [of _ "map (\<lambda>q. map_option ?sh (frame_r q)) (qs @ p # ps)"])
    apply (rule exI [of _ s'])
    apply (rule conjI [OF e conjI [OF o' refl]])
    done
qed

lemma init_unset:
  "\<exists>s0. init now r d = Inr s0 \<and> royale_timestamp_offset s0 = None"
proof -
  let ?s = "\<lparr>camera = True,
               selected_usecase = selected_usecase_arg d,
               frame_count = 0,
               record_pointcloud = record_pointcloud_arg d,
               royale_timestamp_offset = None,
               last_frame_time = now,
               missed_frame_count = 0,
               reconnection_attempts = 0,
               recording_reconnection_count = 0,
               ui_exposure = None,
               ui_usecase = None,
               switch_record_pointcloud = None,
               current_exposure = current_exposure_arg d,
               current_exposure_mode = auto_exposure_arg d,
               recording_directory = None,
               menu = False,
               effects = []\<rparr>"
  have "camera ?s" by simp
  then obtain s' where "init_device r ?s = Inr (succeeded r, s')"
    "royale_timestamp_offset s' = royale_timestamp_offset ?s"
    using init_device_spec [of ?s r] by blast
  then show ?thesis
    by (simp add: init_def)
qed

lemma digit_char_inj:
  assumes "a < 10" and "b < 10" and "digit_char a = digit_char b"
  shows "a = b"
proof -
  have "(48 + a) mod 256 = (48 + b) mod 256"
    using assms(3) unfolding digit_char_def by (simp only: char_of_quasi_inj)
  moreover have "(48 + a) mod 256 = 48 + a" "(48 + b) mod 256 = 48 + b"
    using assms(1,2) by (simp_all only: mod_less)
  ultimately show ?thesis by linarith
qed

lemma str_nat_not_Nil: "str_nat n \<noteq> []"
  by (subst str_nat.simps) simp

lemma str_nat_inj: "str_nat m = str_nat n \<Longrightarrow> m = n"
proof (induction m arbitrary: n rule: str_nat.induct)
  case (1 m)
  show ?case
  proof (cases "m < 10")
    case m: True
    show ?thesis
    proof (cases "n < 10")
      case True
      then show ?thesis
        using "1.prems" m digit_char_inj [of m n]
        by (simp add: str_nat.simps [of m] str_nat.simps [of n])
    next
      case False
      then show ?thesis
        using "1.prems" m str_nat_not_Nil [of "n div 10"]
        by (simp add: str_nat.simps [of m] str_nat.simps [of n])
    qed
  next
    case m: False
    show ?thesis
    proof (cases "n < 10")
      case True
      then show ?thesis
        using "1.prems" m str_nat_not_Nil [of "m div 10"]
        by (simp add: str_nat.simps [of m] str_nat.simps [of n])
    next
      case False
      then have e: "str_nat (m div 10) = str_nat (n div 10)"
        "digit_char (m mod 10) = digit_char (n mod 10)"
        using "1.prems" m by (simp_all add: str_nat.simps [of m] str_nat.simps [of n])
      have "m div 10 = n div 10" using "1.IH" [OF m e(1)] .
      moreover have "m mod 10 = n mod 10"
        using digit_char_inj [OF _ _ e(2)] by simp
      ultimately show ?thesis
        by (metis div_mult_mod_eq)
    qed
  qed
qed

lemma segment_name_inj:
  assumes "0 \<le> m" and "0 \<le> n"
    and "(if m = 0 then ''pointcloud.rrf'' else ''pointcloud_'' @ str_int m @ ''.rrf'') =
         (if n = 0 then ''pointcloud.rrf'' else ''pointcloud_'' @ str_int n @ ''.rrf'')"
  shows "m = n"
proof -
  have "nat m = nat n" if "m \<noteq> 0" "n \<noteq> 0"
    using assms that by (simp add: str_int_def str_nat_inj)
  then show ?thesis
    using assms by (auto split: if_splits)
qed

lemma path_join_relative:
  "b \<noteq> [] \<Longrightarrow> hd b \<noteq> CHR ''/'' \<Longrightarrow>
   path_join d b = (if d = [] \<or> last d = CHR ''/'' then d else d @ ''/'') @ b"
  by (simp add: path_join_def)

lemma segment_path_inj:
  assumes "0 \<le> m" and "0 \<le> n" and "segment_path d m = segment_path d n"
  shows "m = n"
proof -
  let ?name = "\<lambda>k. if k = 0 then ''pointcloud.rrf'' else ''pointcloud_'' @ str_int k @ ''.rrf''"
  have r: "?name k \<noteq> [] \<and> hd (?name k) \<noteq> CHR ''/''" for k :: int
    by simp
  have "?name m = ?name n"
    using assms(3) unfolding segment_path_def
    by (simp only: path_join_relative [OF r [THEN conjunct1] r [THEN conjunct2]] same_append_eq)
  then show ?thesis
    using segment_name_inj [OF assms(1,2)] by simp
qed

lemma upt_shift: "map f [1..<Suc (Suc K)] = f 1 # map (\<lambda>k. f (Suc k)) [1..<Suc K]"
proof -
  have "[1..<Suc (Suc K)] = 1 # map Suc [1..<Suc K]"
    by (simp add: map_Suc_upt upt_conv_Cons del: upt_Suc)
  then show ?thesis by (simp add: comp_def del: upt_Suc)
qed

lemma ticks_segments:
  assumes "camera s" and "recording_directory s = Some d" and "record_pointcloud s"
    and "0 \<le> recording_reconnection_count s"
  shows "\<exists>fs s' ys. ticks A ps s = Inr (fs, s') \<and> camera s' \<and>
           recording_directory s' = Some d \<and> record_pointcloud s' \<and>
           effects s' = effects s @ ys \<and>
           recording_reconnection_count s' =
             recording_reconnection_count s + int (count_list ys (Notify_all Picoflexx_reconnected)) \<and>
           opened ys =
             map (\<lambda>k. segment_path d (recording_reconnection_count s + int k))
               [1..<Suc (count_list ys (Notify_all Picoflexx_reconnected))]"
  using assms
proof (induction ps arbitrary: s)
  case Nil
  then show ?case by simp
next
  case (Cons p ps)
  let ?c = "recording_reconnection_count s"
  define b where "b \<longleftrightarrow> frame_r p = None \<and> trigger A p s \<and> succeeded (reconnect_r p)"
  have rec: "recording s" using Cons.prems by (simp add: recording_def)
  obtain res s1 ys where g: "get_frames A p s = Inr (res, s1)" and c1: "camera s1"
    and k1: "record_pointcloud s1 = record_pointcloud s"
      "recording_directory s1 = recording_directory s"
    and n1: "recording_reconnection_count s1 =
             (if frame_r p = None \<and> trigger A p s \<and> succeeded (reconnect_r p) \<and> recording s
              then recording_reconnection_count s + 1 else recording_reconnection_count s)"
    and e1: "effects s1 = effects s @ Camera Get_frame # ys"
    and o1: "opened ys =
             (if frame_r p = None \<and> trigger A p s \<and> succeeded (reconnect_r p) \<and> recording s
              then [segment_path (the (recording_directory s)) (recording_reconnection_count s + 1)]
              else [])"
    and r1: "count_list ys (Notify_all Picoflexx_reconnected) =
             (if frame_r p = None \<and> trigger A p s \<and> succeeded (reconnect_r p) then 1 else 0)"
    using get_frames_spec [OF Cons.prems(1), where p = p and A = A] by blast
  have o1': "opened ys = (if b then [segment_path d (?c + 1)] else [])"
    using o1 rec Cons.prems(2) by (simp add: b_def)
  have n1': "recording_reconnection_count s1 = (if b then ?c + 1 else ?c)"
    using n1 rec by (simp add: b_def)
  have r1': "count_list ys (Notify_all Picoflexx_reconnected) = (if b then 1 else 0)"
    using r1 by (simp add: b_def)
  have d1: "recording_directory s1 = Some d" and p1: "record_pointcloud s1"
    and z1: "0 \<le> recording_reconnection_count s1"
    using k1 n1 Cons.prems by simp_all
  obtain fs s' zs where t: "ticks A ps s1 = Inr (fs, s')" and c': "camera s'"
    and k': "recording_directory s' = Some d" "record_pointcloud s'"
    and e': "effects s' = effects s1 @ zs"
    and n': "recording_reconnection_count s' =
             recording_reconnection_count s1 + int (count_list zs (Notify_all Picoflexx_reconnected))"
    and o': "opened zs =
             map (\<lambda>k. segment_path d (recording_reconnection_count s1 + int k))
               [1..<Suc (count_list zs (Notify_all Picoflexx_reconnected))]"
    using Cons.IH [OF c1 d1 p1 z1] by blast
  let ?ws = "Camera Get_frame # ys @ zs"
  let ?K = "count_list zs (Notify_all Picoflexx_reconnected)"
  have tk: "ticks A (p # ps) s = Inr (res # fs, s')" using g t by simp
  have ef: "effects s' = effects s @ ?ws" using e1 e' by simp
  have num: "recording_reconnection_count s' =
             ?c + int (count_list ?ws (Notify_all Picoflexx_reconnected))"
    using n' n1' r1' by simp
  have op: "opened ?ws =
             map (\<lambda>k. segment_path d (?c + int k))
               [1..<Suc (count_list ?ws (Notify_all Picoflexx_reconnected))]"
  proof (cases b)
    case True
    have y: "opened ys = [segment_path d (?c + 1)]" "recording_reconnection_count s1 = ?c + 1"
      "count_list ys (Notify_all Picoflexx_reconnected) = 1"
      using o1' n1' r1' True by simp_all
    have "opened ?ws = segment_path d (?c + 1) #
            map (\<lambda>k. segment_path d (?c + 1 + int k)) [1..<Suc ?K]"
      using y o' by simp
    also have "\<dots> = map (\<lambda>k. segment_path d (?c + int k)) [1..<Suc (Suc ?K)]"
      unfolding upt_shift [of "\<lambda>k. segment_path d (?c + int k)" ?K]
      by (simp add: ac_simps del: upt_Suc)
    finally show ?thesis using y(3) by (simp del: upt_Suc)
  next
    case False
    have "opened ys = []" "recording_reconnection_count s1 = ?c"
      "count_list ys (Notify_all Picoflexx_reconnected) = 0"
      using o1' n1' r1' False by simp_all
    then show ?thesis
      using o' by (simp del: upt_Suc)
  qed
  show ?case
    using tk c' k' ef num op by blast
qed

lemma recording_started_result:
  assumes "menu s" and "record_pointcloud s" and "camera s"
  shows "\<exists>s1. on_notify (Recording_started d) s = Inr s1 \<and> camera s1 \<and> record_pointcloud s1 \<and>
           recording_directory s1 = Some d \<and> recording_reconnection_count s1 = 0 \<and>
           effects s1 = effects s @
             [Write_key_value_file (path_join d ''info_picoflexx.csv'') ''a''
                [(''Royale Timestamp Offset'', royale_timestamp_offset s)] True,
              Camera (Start_recording (path_join d ''pointcloud.rrf''))]"
  using assms
  by (simp add: on_notify_def save_recording_metadata_def start_pointcloud_recording_def
      Let_def emit_def)

lemma segment_paths_distinct: "distinct (map (\<lambda>k. segment_path d (int k)) [0..<n])"
proof -
  have "inj_on (\<lambda>k. segment_path d (int k)) (set [0..<n])"
  proof (rule inj_onI)
    fix x y :: nat
    assume "segment_path d (int x) = segment_path d (int y)"
    then have "int x = int y"
      by (rule segment_path_inj [rotated 2]) simp_all
    then show "x = y" by simp
  qed
  then show ?thesis by (simp add: distinct_map)
qed

lemma segment_paths_names:
  "map (\<lambda>k. segment_path d (int k)) [0..<Suc K] =
   map (path_join d)
     (''pointcloud.rrf'' # map (\<lambda>k. ''pointcloud_'' @ str_int (int k) @ ''.rrf'') [1..<Suc K])"
proof -
  have "[0..<Suc K] = 0 # [1..<Suc K]"
    by (simp add: upt_conv_Cons del: upt_Suc)
  moreover have "map (\<lambda>k. segment_path d (int k)) [1..<Suc K] =
    map (path_join d) (map (\<lambda>k. ''pointcloud_'' @ str_int (int k) @ ''.rrf'') [1..<Suc K])"
    by (simp add: segment_path_def del: upt_Suc)
  ultimately show ?thesis
    by (simp add: segment_path_def del: upt_Suc)
qed

section \<open>The exposure clamp\<close>

text \<open>
  Claim C7. Whenever \<open>load_camera_state\<close> reads the exposure limits (the source is
  online: the handle exists, the camera is connected and capturing), the remembered
  exposure becomes the smaller of its old value and the reported maximum, so it never
  exceeds that maximum. This holds for \<open>load_camera_state\<close> itself, after a usecase change
  (\<open>set_usecase\<close>) and after a successful \<open>init_device\<close>, whose last read of the camera
  state is \<open>final_state r\<close>.
\<close>

theorem exposure_clamped_to_device_maximum:
  assumes "camera s" and "is_connected c" and "is_capturing c"
  shows "current_exposure (load_camera_state c s) = min (current_exposure s) (snd (exposure_limits c)) \<and>
         (\<exists>s'. set_usecase c u s = Inr s' \<and>
               current_exposure s' = min (current_exposure s) (snd (exposure_limits c))) \<and>
         (initialize_r r \<and> connected_r r \<and> final_state r = c \<longrightarrow>
            (\<exists>s'. init_device r s = Inr (True, s') \<and>
                  current_exposure s' \<le> snd (exposure_limits c)))"
proof (intro conjI impI)
  show "current_exposure (load_camera_state c s) = min (current_exposure s) (snd (exposure_limits c))"
    using assms by (rule load_camera_state_exposure)
  show "\<exists>s'. set_usecase c u s = Inr s' \<and>
          current_exposure s' = min (current_exposure s) (snd (exposure_limits c))"
    using assms by (simp add: set_usecase_def load_camera_state_exposure)
  assume r: "initialize_r r \<and> connected_r r \<and> final_state r = c"
  then obtain s4 where a: "only_adds setup_effect (emit (Camera Initialize) s) s4"
    and eq: "init_device r s =
             bind_err (on_reconnection (load_camera_state c s4))
               (\<lambda>s5. Inr (True, emit (Notify_all Picoflexx_reconnected) s5))"
    using init_device_success [of s r] assms(1) by auto
  have c4: "camera s4" using only_adds_camera [OF a] assms(1) by simp
  have "current_exposure (load_camera_state c s4) \<le> snd (exposure_limits c)"
    using load_camera_state_exposure [OF c4 assms(2,3)] by simp
  then show "\<exists>s'. init_device r s = Inr (True, s') \<and> current_exposure s' \<le> snd (exposure_limits c)"
    using c4 by (simp add: eq on_reconnection_result split: option.splits)
qed

theorem exposure_clamped_to_device_maximum_witness:
  "camera example_source \<and> is_connected example_camera_state \<and> is_capturing example_camera_state \<and>
   current_exposure example_source = 2000 \<and>
   current_exposure (load_camera_state example_camera_state example_source) = 1000 \<and>
   (\<exists>s'. set_usecase example_camera_state ''MODE_5_45FPS_500'' example_source = Inr s' \<and>
         current_exposure s' = 1000) \<and>
   (\<exists>s'. init_device example_replies example_source = Inr (True, s') \<and> current_exposure s' \<le> 1000)"
  using exposure_clamped_to_device_maximum
          [of example_source example_camera_state "''MODE_5_45FPS_500''" example_replies]
  by (simp add: example_source_def example_camera_state_def example_replies_def)

section \<open>The reconnection trigger\<close>





section \<open>The reconnection protocol\<close>

text \<open>
  Claim C6. Without a camera handle \<open>attempt_reconnect\<close> only logs (a debug line and the
  warning) and changes no field. With a handle it never raises; \<open>init_device\<close> returns
  \<open>True\<close> exactly when the camera initialised and is connected; the call emits
  \<open>picoflexx.disconnected\<close> exactly when the attempt counter was 0 on entry, and does so
  before it calls \<open>initialize\<close> on the camera, which every call does once; the counter
  ends at 0 after a success and one higher after a failure, and the log line of a success
  carries the incremented count. Retries are unbounded: after any number of failed attempts
  the counter has grown by that number and the camera was initialised that many times.
\<close>

theorem attempt_reconnect_protocol:
  "(\<not> camera s \<longrightarrow>
      attempt_reconnect r s =
        Inr (s\<lparr>effects := effects s @ [Log Debug ''attempt_reconnect()'',
                                            Log Warning ''Camera wasn't connected at all?'']\<rparr>)) \<and>
   (camera s \<longrightarrow>
      (\<exists>s1. init_device r s = Inr (initialize_r r \<and> connected_r r, s1)) \<and>
      (\<exists>s' pre post.
         attempt_reconnect r s = Inr s' \<and>
         new_effects s s' = Log Debug ''attempt_reconnect()'' # pre @ Camera Initialize # post \<and>
         (Notify_all Picoflexx_disconnected \<in> set pre \<longleftrightarrow> reconnection_attempts s = 0) \<and>
         Camera Initialize \<notin> set pre \<and>
         Notify_all Picoflexx_disconnected \<notin> set post \<and>
         Camera Initialize \<notin> set post \<and>
         reconnection_attempts s' =
           (if initialize_r r \<and> connected_r r then 0 else reconnection_attempts s + 1) \<and>
         (initialize_r r \<and> connected_r r \<longrightarrow>
            Log Info (''Reconnected after '' @ str_int (reconnection_attempts s + 1)
                        @ '' attempts!'') \<in> set post))) \<and>
   (camera s \<and> (\<forall>q\<in>set rs. \<not> (initialize_r q \<and> connected_r q)) \<longrightarrow>
      (\<exists>s'. reconnects rs s = Inr s' \<and>
            reconnection_attempts s' = reconnection_attempts s + int (length rs) \<and>
            count_list (new_effects s s') (Camera Initialize) = length rs))"
proof (intro conjI impI)
  assume "\<not> camera s"
  then show "attempt_reconnect r s =
        Inr (s\<lparr>effects := effects s @ [Log Debug ''attempt_reconnect()'',
                                            Log Warning ''Camera wasn't connected at all?'']\<rparr>)"
    by (simp add: attempt_reconnect_no_camera emit_def)
next
  assume c: "camera s"
  show "\<exists>s1. init_device r s = Inr (initialize_r r \<and> connected_r r, s1)"
    using init_device_spec [OF c, of r] unfolding succeeded_def by blast
next
  assume c: "camera s"
  obtain s' post where a: "attempt_reconnect r s = Inr s'"
    and n: "reconnection_attempts s' = (if succeeded r then 0 else reconnection_attempts s + 1)"
    and e: "effects s' = effects s @ Log Debug ''attempt_reconnect()'' #
             (if reconnection_attempts s = 0
              then (if recording s then [Camera Stop_recording] else []) @
                   [Notify_all Picoflexx_disconnected]
              else []) @ Camera Initialize # post"
    and p: "Notify_all Picoflexx_disconnected \<notin> set post" "Camera Initialize \<notin> set post"
      "succeeded r \<longrightarrow>
              Log Info (''Reconnected after '' @ str_int (reconnection_attempts s + 1)
                          @ '' attempts!'') \<in> set post"
    using attempt_reconnect_spec [OF c, of r] by blast
  let ?pre = "if reconnection_attempts s = 0
              then (if recording s then [Camera Stop_recording] else []) @
                   [Notify_all Picoflexx_disconnected]
              else []"
  have "new_effects s s' = Log Debug ''attempt_reconnect()'' # ?pre @ Camera Initialize # post"
    by (rule new_effects_append) (simp add: e)
  moreover have "Notify_all Picoflexx_disconnected \<in> set ?pre \<longleftrightarrow> reconnection_attempts s = 0"
    "Camera Initialize \<notin> set ?pre"
    by simp_all
  ultimately show "\<exists>s' pre post.
         attempt_reconnect r s = Inr s' \<and>
         new_effects s s' = Log Debug ''attempt_reconnect()'' # pre @ Camera Initialize # post \<and>
         (Notify_all Picoflexx_disconnected \<in> set pre \<longleftrightarrow> reconnection_attempts s = 0) \<and>
         Camera Initialize \<notin> set pre \<and>
         Notify_all Picoflexx_disconnected \<notin> set post \<and>
         Camera Initialize \<notin> set post \<and>
         reconnection_attempts s' =
           (if initialize_r r \<and> connected_r r then 0 else reconnection_attempts s + 1) \<and>
         (initialize_r r \<and> connected_r r \<longrightarrow>
            Log Info (''Reconnected after '' @ str_int (reconnection_attempts s + 1)
                        @ '' attempts!'') \<in> set post)"
    using a n p unfolding succeeded_def by blast
next
  assume h: "camera s \<and> (\<forall>q\<in>set rs. \<not> (initialize_r q \<and> connected_r q))"
  then obtain s' ys where "reconnects rs s = Inr s'"
    "reconnection_attempts s' = reconnection_attempts s + int (length rs)"
    "effects s' = effects s @ ys" "count_list ys (Camera Initialize) = length rs"
    using failed_reconnects [of s rs] unfolding succeeded_def by blast
  then show "\<exists>s'. reconnects rs s = Inr s' \<and>
            reconnection_attempts s' = reconnection_attempts s + int (length rs) \<and>
            count_list (new_effects s s') (Camera Initialize) = length rs"
    by (simp add: new_effects_append)
qed

theorem attempt_reconnect_protocol_witness:
  "\<not> camera (cleanup example_source) \<and>
   attempt_reconnect example_replies (cleanup example_source) =
     Inr ((cleanup example_source)
            \<lparr>effects := effects (cleanup example_source) @
               [Log Debug ''attempt_reconnect()'', Log Warning ''Camera wasn't connected at all?'']\<rparr>) \<and>
   camera example_source \<and>
   (\<exists>s' pre post.
      attempt_reconnect example_replies example_source = Inr s' \<and>
      new_effects example_source s' =
        Log Debug ''attempt_reconnect()'' # pre @ Camera Initialize # post \<and>
      Notify_all Picoflexx_disconnected \<in> set pre \<and>
      reconnection_attempts s' = 0 \<and>
      Log Info (''Reconnected after '' @ str_int 1 @ '' attempts!'') \<in> set post) \<and>
   list_all (\<lambda>q. \<not> (initialize_r q \<and> connected_r q))
     [failing_replies, failing_replies, failing_replies] \<and>
   (\<exists>s'. reconnects [failing_replies, failing_replies, failing_replies] example_source = Inr s' \<and>
         reconnection_attempts s' = 3 \<and>
         count_list (new_effects example_source s') (Camera Initialize) = 3)"
proof -
  have c: "camera example_source" "reconnection_attempts example_source = 0"
    by (simp_all add: example_source_def)
  have nc: "\<not> camera (cleanup example_source)"
    by (simp add: cleanup_def example_source_def)
  have ok: "initialize_r example_replies \<and> connected_r example_replies"
    by (simp add: example_replies_def)
  have f: "\<forall>q\<in>set [failing_replies, failing_replies, failing_replies].
      \<not> (initialize_r q \<and> connected_r q)"
    by (simp add: failing_replies_def)
  note t1 = attempt_reconnect_protocol [of "cleanup example_source" example_replies "[]"]
  note t2 = attempt_reconnect_protocol
              [of example_source example_replies "[failing_replies, failing_replies, failing_replies]"]
  have a: "attempt_reconnect example_replies (cleanup example_source) =
     Inr ((cleanup example_source)
            \<lparr>effects := effects (cleanup example_source) @
               [Log Debug ''attempt_reconnect()'', Log Warning ''Camera wasn't connected at all?'']\<rparr>)"
    by (rule t1 [THEN conjunct1, THEN mp, OF nc])
  have b: "\<exists>s' pre post.
      attempt_reconnect example_replies example_source = Inr s' \<and>
      new_effects example_source s' =
        Log Debug ''attempt_reconnect()'' # pre @ Camera Initialize # post \<and>
      Notify_all Picoflexx_disconnected \<in> set pre \<and>
      reconnection_attempts s' = 0 \<and>
      Log Info (''Reconnected after '' @ str_int 1 @ '' attempts!'') \<in> set post"
    using t2 [THEN conjunct2, THEN conjunct1, THEN mp, OF c(1), THEN conjunct2] ok c(2)
    by auto
  have d: "\<exists>s'. reconnects [failing_replies, failing_replies, failing_replies] example_source = Inr s' \<and>
         reconnection_attempts s' = 3 \<and>
         count_list (new_effects example_source s') (Camera Initialize) = 3"
    using t2 [THEN conjunct2, THEN conjunct2, THEN mp, OF conjI [OF c(1) f]] c(2)
    by (simp add: numeral_3_eq_3 del: reconnects.simps)
  show ?thesis
    using nc a c(1) b f [folded list_all_iff] d by (intro conjI) assumption+
qed

section \<open>The timestamp offset\<close>

text \<open>
  Claim C1, as the code has it. The constructor leaves \<open>royale_timestamp_offset\<close> unset.
  Neither \<open>init_device\<close> nor \<open>attempt_reconnect\<close> changes it, whether they succeed or
  not, and neither does a poll that times out. The first frame pair obtained while it is
  unset sets it, and from then on every run of polls, with any reconnections it triggers,
  leaves the same value in place and returns every frame pair with that value added (a
  float addition) to both timestamps. So in a run of polls from a source without an
  offset, the offset is the one computed at the first poll that returns a frame pair, for
  that pair and for all later ones.
\<close>

theorem offset_fixed_for_lifetime:
  "(\<exists>s0. init now r d = Inr s0 \<and> royale_timestamp_offset s0 = None) \<and>
   (camera s \<longrightarrow>
      (\<exists>ok s'. init_device r s = Inr (ok, s') \<and>
         royale_timestamp_offset s' = royale_timestamp_offset s) \<and>
      (\<exists>s'. attempt_reconnect r s = Inr s' \<and>
         royale_timestamp_offset s' = royale_timestamp_offset s)) \<and>
   (camera s \<and> frame_r p = None \<longrightarrow>
      (\<exists>s'. get_frames A p s = Inr (None, s') \<and>
         royale_timestamp_offset s' = royale_timestamp_offset s)) \<and>
   (camera s \<and> royale_timestamp_offset s = None \<and> frame_r p = Some f \<longrightarrow>
      (\<exists>f' s'. get_frames A p s = Inr (Some f', s') \<and>
         royale_timestamp_offset s' = Some (fsub A (pupil_timestamp p) (time_offset p)))) \<and>
   (camera s \<and> royale_timestamp_offset s = Some x \<longrightarrow>
      (\<exists>fs s'. ticks A ps s = Inr (fs, s') \<and> royale_timestamp_offset s' = Some x \<and>
         fs = map (\<lambda>p. map_option
                  (\<lambda>f. f\<lparr>ir := (ir f)\<lparr>timestamp := fadd A (timestamp (ir f)) x\<rparr>,
                          depth := (depth f)\<lparr>timestamp := fadd A (timestamp (depth f)) x\<rparr>\<rparr>)
                  (frame_r p)) ps)) \<and>
   (camera s \<and> royale_timestamp_offset s = None \<and> (\<forall>q\<in>set qs. frame_r q = None) \<and>
    frame_r p = Some f \<longrightarrow>
      (\<exists>fs s'. ticks A (qs @ p # ps) s = Inr (fs, s') \<and>
         royale_timestamp_offset s' = Some (fsub A (pupil_timestamp p) (time_offset p)) \<and>
         fs = map (\<lambda>q. map_option
                  (\<lambda>g. g\<lparr>ir := (ir g)\<lparr>timestamp := fadd A (timestamp (ir g))
                                          (fsub A (pupil_timestamp p) (time_offset p))\<rparr>,
                          depth := (depth g)\<lparr>timestamp := fadd A (timestamp (depth g))
                                          (fsub A (pupil_timestamp p) (time_offset p))\<rparr>\<rparr>)
                  (frame_r q)) (qs @ p # ps)))"
proof (intro conjI impI)
  show "\<exists>s0. init now r d = Inr s0 \<and> royale_timestamp_offset s0 = None"
    by (rule init_unset)
next
  assume c: "camera s"
  show "\<exists>ok s'. init_device r s = Inr (ok, s') \<and>
         royale_timestamp_offset s' = royale_timestamp_offset s"
    using init_device_spec [OF c, of r] by blast
next
  assume c: "camera s"
  show "\<exists>s'. attempt_reconnect r s = Inr s' \<and>
         royale_timestamp_offset s' = royale_timestamp_offset s"
    using attempt_reconnect_spec [OF c, of r] by blast
next
  assume a: "camera s \<and> frame_r p = None"
  then have c: "camera s" and fn: "frame_r p = None" by simp_all
  obtain res s' where g: "get_frames A p s = Inr (res, s')"
    and r: "res = map_option (\<lambda>f. f\<lparr>ir := (ir f)\<lparr>timestamp := fadd A (timestamp (ir f)) (the (royale_timestamp_offset s'))\<rparr>,
                      depth := (depth f)\<lparr>timestamp := fadd A (timestamp (depth f)) (the (royale_timestamp_offset s'))\<rparr>\<rparr>) (frame_r p)"
    and o: "royale_timestamp_offset s' =
             (case frame_r p of None \<Rightarrow> royale_timestamp_offset s
              | Some f \<Rightarrow> (case royale_timestamp_offset s of
                   None \<Rightarrow> Some (fsub A (pupil_timestamp p) (time_offset p)) | Some x \<Rightarrow> Some x))"
    using get_frames_spec [OF c, where p = p and A = A] by blast
  show "\<exists>s'. get_frames A p s = Inr (None, s') \<and>
         royale_timestamp_offset s' = royale_timestamp_offset s"
    using g r o fn by simp
next
  assume "camera s \<and> royale_timestamp_offset s = None \<and> frame_r p = Some f"
  then show "\<exists>f' s'. get_frames A p s = Inr (Some f', s') \<and>
         royale_timestamp_offset s' = Some (fsub A (pupil_timestamp p) (time_offset p))"
    by (simp add: get_frames_success Let_def)
next
  assume "camera s \<and> royale_timestamp_offset s = Some x"
  then show "\<exists>fs s'. ticks A ps s = Inr (fs, s') \<and> royale_timestamp_offset s' = Some x \<and>
         fs = map (\<lambda>p. map_option
                  (\<lambda>f. f\<lparr>ir := (ir f)\<lparr>timestamp := fadd A (timestamp (ir f)) x\<rparr>,
                          depth := (depth f)\<lparr>timestamp := fadd A (timestamp (depth f)) x\<rparr>\<rparr>)
                  (frame_r p)) ps"
    using ticks_offset [where s = s and x = x and ps = ps and A = A] by blast
next
  assume a: "camera s \<and> royale_timestamp_offset s = None \<and> (\<forall>q\<in>set qs. frame_r q = None) \<and>
    frame_r p = Some f"
  show "\<exists>fs s'. ticks A (qs @ p # ps) s = Inr (fs, s') \<and>
         royale_timestamp_offset s' = Some (fsub A (pupil_timestamp p) (time_offset p)) \<and>
         fs = map (\<lambda>q. map_option
                  (\<lambda>g. g\<lparr>ir := (ir g)\<lparr>timestamp := fadd A (timestamp (ir g))
                                          (fsub A (pupil_timestamp p) (time_offset p))\<rparr>,
                          depth := (depth g)\<lparr>timestamp := fadd A (timestamp (depth g))
                                          (fsub A (pupil_timestamp p) (time_offset p))\<rparr>\<rparr>)
                  (frame_r q)) (qs @ p # ps)"
    by (rule ticks_first_frame) (use a in simp_all)
qed

theorem offset_fixed_for_lifetime_witness:
  "camera (example_source\<lparr>royale_timestamp_offset := Some 5\<rparr>) \<and>
   (\<exists>ok s'. init_device example_replies (example_source\<lparr>royale_timestamp_offset := Some 5\<rparr>) = Inr (ok, s') \<and>
      royale_timestamp_offset s' = Some 5) \<and>
   (\<exists>s'. attempt_reconnect example_replies (example_source\<lparr>royale_timestamp_offset := Some 5\<rparr>) = Inr s' \<and>
      royale_timestamp_offset s' = Some 5) \<and>
   camera example_source \<and> royale_timestamp_offset example_source = None \<and>
   frame_r (timeout_poll 6) = None \<and>
   (\<exists>s'. get_frames exact_arith (timeout_poll 6) example_source = Inr (None, s') \<and>
      royale_timestamp_offset s' = None) \<and>
   frame_r (frame_poll 100 1007 1000) =
     Some \<lparr>ir = \<lparr>timestamp = 100, exposure_times = []\<rparr>,
           depth = \<lparr>timestamp = 100, exposure_times = [1000, 2000, 2000]\<rparr>\<rparr> \<and>
   (\<exists>f' s'. get_frames exact_arith (frame_poll 100 1007 1000) example_source = Inr (Some f', s') \<and>
      royale_timestamp_offset s' = Some 7) \<and>
   royale_timestamp_offset (example_source\<lparr>royale_timestamp_offset := Some 5\<rparr>) = Some 5 \<and>
   (\<exists>fs s'. ticks exact_arith [timeout_poll 6, frame_poll 100 1007 1000]
               (example_source\<lparr>royale_timestamp_offset := Some 5\<rparr>) = Inr (fs, s') \<and>
      royale_timestamp_offset s' = Some 5 \<and>
      map (map_option (\<lambda>f. (timestamp (ir f), timestamp (depth f)))) fs = [None, Some (105, 105)]) \<and>
   list_all (\<lambda>q. frame_r q = None) [timeout_poll 6, timeout_poll 7] \<and>
   (\<exists>fs s'. ticks exact_arith
               ([timeout_poll 6, timeout_poll 7] @ frame_poll 100 1007 1000 # [frame_poll 101 1009 1001])
               example_source = Inr (fs, s') \<and>
      royale_timestamp_offset s' = Some 7 \<and>
      map (map_option (\<lambda>f. (timestamp (ir f), timestamp (depth f)))) fs =
        [None, None, Some (107, 107), Some (108, 108)])"
proof -
  let ?s5 = "example_source\<lparr>royale_timestamp_offset := Some 5\<rparr>"
  let ?f = "\<lparr>ir = \<lparr>timestamp = 100, exposure_times = []\<rparr>,
           depth = \<lparr>timestamp = 100, exposure_times = [1000, 2000, 2000]\<rparr>\<rparr>"
  let ?ps = "[timeout_poll 6, frame_poll 100 1007 1000]"
  let ?qs = "[timeout_poll 6, timeout_poll 7]"
  let ?p = "frame_poll 100 1007 1000"
  have c5: "camera ?s5" and o5: "royale_timestamp_offset ?s5 = Some 5"
    and c: "camera example_source" and o: "royale_timestamp_offset example_source = None"
    by (simp_all add: example_source_def)
  have fr: "frame_r ?p = Some ?f"
    by (simp add: frame_poll_def)
  have fn: "frame_r (timeout_poll 6) = None"
    by (simp add: timeout_poll_def)
  have qn: "\<forall>q\<in>set ?qs. frame_r q = None"
    by (simp add: timeout_poll_def)
  have off: "fsub exact_arith (pupil_timestamp ?p) (time_offset ?p) = 7"
    by (simp add: frame_poll_def)
  note t5 = offset_fixed_for_lifetime [where now = 0 and r = example_replies
              and d = default_init_dict and s = ?s5 and p = ?p and f = ?f and x = 5
              and ps = ?ps and qs = ?qs and A = exact_arith]
  note t0 = offset_fixed_for_lifetime [where now = 0 and r = example_replies
              and d = default_init_dict and s = example_source and p = ?p and f = ?f and x = 5
              and ps = "[frame_poll 101 1009 1001]" and qs = ?qs and A = exact_arith]
  note t6 = offset_fixed_for_lifetime [where now = 0 and r = example_replies
              and d = default_init_dict and s = example_source and p = "timeout_poll 6"
              and f = ?f and x = 5 and ps = ?ps and qs = ?qs and A = exact_arith]
  have a: "\<exists>ok s'. init_device example_replies ?s5 = Inr (ok, s') \<and> royale_timestamp_offset s' = Some 5"
    using t5 [THEN conjunct2, THEN conjunct1, THEN mp, OF c5, THEN conjunct1] o5 by simp
  have b: "\<exists>s'. attempt_reconnect example_replies ?s5 = Inr s' \<and> royale_timestamp_offset s' = Some 5"
    using t5 [THEN conjunct2, THEN conjunct1, THEN mp, OF c5, THEN conjunct2] o5 by simp
  have m: "\<exists>s'. get_frames exact_arith (timeout_poll 6) example_source = Inr (None, s') \<and>
      royale_timestamp_offset s' = None"
    using t6 [THEN conjunct2, THEN conjunct2, THEN conjunct1, THEN mp, OF conjI [OF c fn]] o
    by simp
  have d: "\<exists>f' s'. get_frames exact_arith ?p example_source = Inr (Some f', s') \<and>
      royale_timestamp_offset s' = Some 7"
    using t0 [THEN conjunct2, THEN conjunct2, THEN conjunct2, THEN conjunct1, THEN mp,
              OF conjI [OF c conjI [OF o fr]]]
    unfolding off .
  obtain fs s' where e: "ticks exact_arith ?ps ?s5 = Inr (fs, s')" "royale_timestamp_offset s' = Some 5"
    "fs = map (\<lambda>p. map_option
                  (\<lambda>f. f\<lparr>ir := (ir f)\<lparr>timestamp := fadd exact_arith (timestamp (ir f)) 5\<rparr>,
                          depth := (depth f)\<lparr>timestamp := fadd exact_arith (timestamp (depth f)) 5\<rparr>\<rparr>)
                  (frame_r p)) ?ps"
    using t5 [THEN conjunct2, THEN conjunct2, THEN conjunct2, THEN conjunct2, THEN conjunct1,
              THEN mp, OF conjI [OF c5 o5]]
    by (elim exE conjE)
  have h: "map (map_option (\<lambda>f. (timestamp (ir f), timestamp (depth f)))) fs = [None, Some (105, 105)]"
    unfolding e(3) by (simp add: timeout_poll_def frame_poll_def)
  have g: "\<exists>fs s'. ticks exact_arith ?ps ?s5 = Inr (fs, s') \<and>
      royale_timestamp_offset s' = Some 5 \<and>
      map (map_option (\<lambda>f. (timestamp (ir f), timestamp (depth f)))) fs = [None, Some (105, 105)]"
    using e(1,2) h by (intro exI conjI)
  obtain gs s'' where w: "ticks exact_arith (?qs @ ?p # [frame_poll 101 1009 1001]) example_source
        = Inr (gs, s'')"
    "royale_timestamp_offset s'' = Some (fsub exact_arith (pupil_timestamp ?p) (time_offset ?p))"
    "gs = map (\<lambda>q. map_option
                  (\<lambda>g. g\<lparr>ir := (ir g)\<lparr>timestamp := fadd exact_arith (timestamp (ir g))
                                          (fsub exact_arith (pupil_timestamp ?p) (time_offset ?p))\<rparr>,
                          depth := (depth g)\<lparr>timestamp := fadd exact_arith (timestamp (depth g))
                                          (fsub exact_arith (pupil_timestamp ?p) (time_offset ?p))\<rparr>\<rparr>)
                  (frame_r q)) (?qs @ ?p # [frame_poll 101 1009 1001])"
    using t0 [THEN conjunct2, THEN conjunct2, THEN conjunct2, THEN conjunct2, THEN conjunct2,
              THEN mp, OF conjI [OF c conjI [OF o conjI [OF qn fr]]]]
    by (elim exE conjE)
  have w2: "royale_timestamp_offset s'' = Some 7"
    using w(2) unfolding off .
  have w3: "map (map_option (\<lambda>f. (timestamp (ir f), timestamp (depth f)))) gs =
        [None, None, Some (107, 107), Some (108, 108)]"
    unfolding w(3) off by (simp add: timeout_poll_def frame_poll_def)
  have k: "\<exists>fs s'. ticks exact_arith (?qs @ ?p # [frame_poll 101 1009 1001]) example_source
        = Inr (fs, s') \<and>
      royale_timestamp_offset s' = Some 7 \<and>
      map (map_option (\<lambda>f. (timestamp (ir f), timestamp (depth f)))) fs =
        [None, None, Some (107, 107), Some (108, 108)]"
    using w(1) w2 w3 by (intro exI conjI)
  show ?thesis
    apply (rule conjI, rule c5)
    apply (rule conjI, rule a)
    apply (rule conjI, rule b)
    apply (rule conjI, rule c)
    apply (rule conjI, rule o)
    apply (rule conjI, rule fn)
    apply (rule conjI, rule m)
    apply (rule conjI, rule fr)
    apply (rule conjI, rule d)
    apply (rule conjI, rule o5)
    apply (rule conjI, rule g)
    apply (rule conjI, rule qn [folded list_all_iff])
    apply (rule k)
    done
qed

text \<open>
  The claim as stated fails: a successful \<open>init_device\<close> on a source whose offset is 5
  leaves the offset at 5 instead of unsetting it, and the first frame after it (device
  timestamp 100, Pupil clock 1007, \<open>time()\<close> 1000) comes back with timestamp 105 and the
  offset still 5, not recomputed to 7.
\<close>

theorem offset_survives_reconnection_counterexample:
  "\<not> isl (init_device example_replies (example_source\<lparr>royale_timestamp_offset := Some 5\<rparr>)) \<and>
   fst (projr (init_device example_replies (example_source\<lparr>royale_timestamp_offset := Some 5\<rparr>))) \<and>
   royale_timestamp_offset
     (snd (projr (init_device example_replies (example_source\<lparr>royale_timestamp_offset := Some 5\<rparr>))))
     = Some 5 \<and>
   map_option (\<lambda>f. timestamp (ir f))
     (fst (projr (get_frames exact_arith (frame_poll 100 1007 1000)
        (snd (projr (init_device example_replies (example_source\<lparr>royale_timestamp_offset := Some 5\<rparr>)))))))
     = Some 105 \<and>
   royale_timestamp_offset
     (snd (projr (get_frames exact_arith (frame_poll 100 1007 1000)
        (snd (projr (init_device example_replies (example_source\<lparr>royale_timestamp_offset := Some 5\<rparr>)))))))
     = Some 5"
proof -
  let ?s5 = "example_source\<lparr>royale_timestamp_offset := Some 5\<rparr>"
  have c5: "camera ?s5" by (simp add: example_source_def)
  have ok: "succeeded example_replies" by (simp add: succeeded_def example_replies_def)
  obtain s' where i: "init_device example_replies ?s5 = Inr (True, s')" and c': "camera s'"
    and o': "royale_timestamp_offset s' = Some 5"
    using init_device_spec [OF c5, of example_replies] ok by (auto simp add: example_source_def)
  have fr: "frame_r (frame_poll 100 1007 1000) = Some \<lparr>ir = \<lparr>timestamp = 100, exposure_times = []\<rparr>,
           depth = \<lparr>timestamp = 100, exposure_times = [1000, 2000, 2000]\<rparr>\<rparr>"
    by (simp add: frame_poll_def)
  show ?thesis
    by (simp add: i get_frames_success [OF c' fr] o')
qed

text \<open>
  Claim C2, as the code has it. A frame pair obtained while no offset is set fixes the
  offset to \<open>g_pool.get_timestamp() - time()\<close>, the Pupil clock minus the host's Unix clock
  at that moment, subtracted as floats; the device timestamp of the frame is not used. The
  offset is added, as a float, to the timestamps of both frames of that pair and of every
  pair returned afterwards. When \<open>time()\<close> reads 100 and the Pupil clock 1000, the offset
  is 900 and a later frame with device timestamp 101 is returned with timestamp 1001 (the
  witness; these operations are exact in doubles).
\<close>

theorem offset_is_pupil_time_minus_unix_time:
  assumes "camera s" and "royale_timestamp_offset s = None" and "frame_r p = Some f"
  shows "\<exists>f' s'. get_frames A p s = Inr (Some f', s') \<and>
           royale_timestamp_offset s' = Some (fsub A (pupil_timestamp p) (time_offset p)) \<and>
           timestamp (ir f') =
             fadd A (timestamp (ir f)) (fsub A (pupil_timestamp p) (time_offset p)) \<and>
           timestamp (depth f') =
             fadd A (timestamp (depth f)) (fsub A (pupil_timestamp p) (time_offset p)) \<and>
           (\<exists>fs s''. ticks A ps s' = Inr (fs, s'') \<and>
              fs = map (\<lambda>q. map_option
                     (\<lambda>g. g\<lparr>ir := (ir g)\<lparr>timestamp := fadd A (timestamp (ir g))
                                             (fsub A (pupil_timestamp p) (time_offset p))\<rparr>,
                             depth := (depth g)\<lparr>timestamp := fadd A (timestamp (depth g))
                                             (fsub A (pupil_timestamp p) (time_offset p))\<rparr>\<rparr>)
                     (frame_r q)) ps)"
proof -
  let ?off = "fsub A (pupil_timestamp p) (time_offset p)"
  let ?f' = "f\<lparr>ir := (ir f)\<lparr>timestamp := fadd A (timestamp (ir f)) ?off\<rparr>,
                depth := (depth f)\<lparr>timestamp := fadd A (timestamp (depth f)) ?off\<rparr>\<rparr>"
  let ?s' = "(emit (Camera Get_frame) s)
                \<lparr>missed_frame_count := 0, last_frame_time := time_success p,
                 royale_timestamp_offset := Some ?off, frame_count := frame_count s + 1\<rparr>"
  have g: "get_frames A p s = Inr (Some ?f', ?s')"
    using assms by (simp add: get_frames_success Let_def)
  have c': "camera ?s'" and o': "royale_timestamp_offset ?s' = Some ?off"
    using assms(1) by simp_all
  obtain fs s'' where t: "ticks A ps ?s' = Inr (fs, s'')"
    "fs = map (\<lambda>q. map_option
                     (\<lambda>g. g\<lparr>ir := (ir g)\<lparr>timestamp := fadd A (timestamp (ir g)) ?off\<rparr>,
                             depth := (depth g)\<lparr>timestamp := fadd A (timestamp (depth g)) ?off\<rparr>\<rparr>)
                     (frame_r q)) ps"
    using ticks_offset [OF c' o', where ps = ps and A = A] by blast
  show ?thesis
    apply (rule exI [of _ ?f'])
    apply (rule exI [of _ ?s'])
    apply (intro conjI)
        apply (rule g)
       apply simp
      apply simp
     apply simp
    apply (rule exI [of _ fs])
    apply (rule exI [of _ s''])
    apply (rule conjI [OF t])
    done
qed

theorem offset_is_pupil_time_minus_unix_time_witness:
  "camera example_source \<and> royale_timestamp_offset example_source = None \<and>
   frame_r (frame_poll 100 1000 100) =
     Some \<lparr>ir = \<lparr>timestamp = 100, exposure_times = []\<rparr>,
           depth = \<lparr>timestamp = 100, exposure_times = [1000, 2000, 2000]\<rparr>\<rparr> \<and>
   (\<exists>f' s'. get_frames exact_arith (frame_poll 100 1000 100) example_source = Inr (Some f', s') \<and>
      royale_timestamp_offset s' = Some 900 \<and>
      timestamp (ir f') = 1000 \<and> timestamp (depth f') = 1000 \<and>
      (\<exists>fs s''. ticks exact_arith [frame_poll 101 1001 101] s' = Inr (fs, s'') \<and>
         map (map_option (\<lambda>g. (timestamp (ir g), timestamp (depth g)))) fs = [Some (1001, 1001)]))"
proof -
  let ?f = "\<lparr>ir = \<lparr>timestamp = 100, exposure_times = []\<rparr>,
           depth = \<lparr>timestamp = 100, exposure_times = [1000, 2000, 2000]\<rparr>\<rparr>"
  let ?p = "frame_poll 100 1000 100"
  have c: "camera example_source" and o: "royale_timestamp_offset example_source = None"
    by (simp_all add: example_source_def)
  have fr: "frame_r ?p = Some ?f"
    by (simp add: frame_poll_def)
  have off: "fsub exact_arith (pupil_timestamp ?p) (time_offset ?p) = 900"
    by (simp add: frame_poll_def)
  obtain f' s' fs s'' where g: "get_frames exact_arith ?p example_source = Inr (Some f', s')"
    and k: "royale_timestamp_offset s' = Some (fsub exact_arith (pupil_timestamp ?p) (time_offset ?p))"
      "timestamp (ir f') =
         fadd exact_arith (timestamp (ir ?f)) (fsub exact_arith (pupil_timestamp ?p) (time_offset ?p))"
      "timestamp (depth f') =
         fadd exact_arith (timestamp (depth ?f)) (fsub exact_arith (pupil_timestamp ?p) (time_offset ?p))"
    and t: "ticks exact_arith [frame_poll 101 1001 101] s' = Inr (fs, s'')"
    and m: "fs = map (\<lambda>q. map_option
                     (\<lambda>g. g\<lparr>ir := (ir g)\<lparr>timestamp := fadd exact_arith (timestamp (ir g))
                                             (fsub exact_arith (pupil_timestamp ?p) (time_offset ?p))\<rparr>,
                             depth := (depth g)\<lparr>timestamp := fadd exact_arith (timestamp (depth g))
                                             (fsub exact_arith (pupil_timestamp ?p) (time_offset ?p))\<rparr>\<rparr>)
                     (frame_r q)) [frame_poll 101 1001 101]"
    using offset_is_pupil_time_minus_unix_time
            [OF c o fr, where ps = "[frame_poll 101 1001 101]" and A = exact_arith]
    by (elim exE conjE)
  have m': "map (map_option (\<lambda>g. (timestamp (ir g), timestamp (depth g)))) fs = [Some (1001, 1001)]"
    unfolding m off by (simp add: frame_poll_def)
  have k': "royale_timestamp_offset s' = Some 900" "timestamp (ir f') = 1000"
    "timestamp (depth f') = 1000"
    using k unfolding off by simp_all
  have inner: "\<exists>fs s''. ticks exact_arith [frame_poll 101 1001 101] s' = Inr (fs, s'') \<and>
         map (map_option (\<lambda>g. (timestamp (ir g), timestamp (depth g)))) fs = [Some (1001, 1001)]"
    using t m' by (intro exI conjI)
  have "\<exists>f' s'. get_frames exact_arith ?p example_source = Inr (Some f', s') \<and>
      royale_timestamp_offset s' = Some 900 \<and>
      timestamp (ir f') = 1000 \<and> timestamp (depth f') = 1000 \<and>
      (\<exists>fs s''. ticks exact_arith [frame_poll 101 1001 101] s' = Inr (fs, s'') \<and>
         map (map_option (\<lambda>g. (timestamp (ir g), timestamp (depth g)))) fs = [Some (1001, 1001)])"
    apply (rule exI [of _ f'], rule exI [of _ s'])
    apply (rule conjI [OF g conjI [OF k'(1) conjI [OF k'(2) conjI [OF k'(3) inner]]]])
    done
  then show ?thesis
    by (rule conjI [OF c conjI [OF o conjI [OF fr]]])
qed

text \<open>
  The claim as stated fails: with device timestamp 100, Pupil clock 1000 and \<open>time()\<close>
  reading 100.5, the offset is 899.5, not 1000 - 100, and a later frame with device
  timestamp 101 is returned with timestamp 1000.5, not 1001. Every operation of this run
  is exact in doubles.
\<close>

theorem offset_ignores_device_timestamp_counterexample:
  "frame_r (frame_poll 100 1000 (201 / 2)) =
     Some \<lparr>ir = \<lparr>timestamp = 100, exposure_times = []\<rparr>,
           depth = \<lparr>timestamp = 100, exposure_times = [1000, 2000, 2000]\<rparr>\<rparr> \<and>
   pupil_timestamp (frame_poll 100 1000 (201 / 2)) = 1000 \<and>
   royale_timestamp_offset example_source = None \<and>
   royale_timestamp_offset
     (snd (projr (get_frames exact_arith (frame_poll 100 1000 (201 / 2)) example_source)))
     = Some (1799 / 2) \<and>
   royale_timestamp_offset
     (snd (projr (get_frames exact_arith (frame_poll 100 1000 (201 / 2)) example_source)))
     \<noteq> Some (1000 - 100) \<and>
   map_option (\<lambda>f. timestamp (ir f))
     (fst (projr (get_frames exact_arith (frame_poll 101 1001 (203 / 2))
        (snd (projr (get_frames exact_arith (frame_poll 100 1000 (201 / 2)) example_source))))))
     = Some (2001 / 2) \<and>
   map_option (\<lambda>f. timestamp (ir f))
     (fst (projr (get_frames exact_arith (frame_poll 101 1001 (203 / 2))
        (snd (projr (get_frames exact_arith (frame_poll 100 1000 (201 / 2)) example_source))))))
     \<noteq> Some 1001"
proof -
  have c: "camera example_source" and o: "royale_timestamp_offset example_source = None"
    by (simp_all add: example_source_def)
  have fr: "frame_r (frame_poll 100 1000 (201 / 2)) =
     Some \<lparr>ir = \<lparr>timestamp = 100, exposure_times = []\<rparr>,
           depth = \<lparr>timestamp = 100, exposure_times = [1000, 2000, 2000]\<rparr>\<rparr>"
    and fr2: "frame_r (frame_poll 101 1001 (203 / 2)) =
     Some \<lparr>ir = \<lparr>timestamp = 101, exposure_times = []\<rparr>,
           depth = \<lparr>timestamp = 101, exposure_times = [1000, 2000, 2000]\<rparr>\<rparr>"
    and pt: "pupil_timestamp (frame_poll 100 1000 (201 / 2)) = 1000"
      "time_offset (frame_poll 100 1000 (201 / 2)) = 201 / 2"
    by (simp_all add: frame_poll_def)
  let ?s1 = "snd (projr (get_frames exact_arith (frame_poll 100 1000 (201 / 2)) example_source))"
  have o1: "royale_timestamp_offset ?s1 = Some (1799 / 2)" and c1: "camera ?s1"
    using c by (simp_all add: get_frames_success [OF c fr] o pt Let_def)
  have r2: "map_option (\<lambda>f. timestamp (ir f))
     (fst (projr (get_frames exact_arith (frame_poll 101 1001 (203 / 2)) ?s1))) = Some (2001 / 2)"
    by (simp add: get_frames_success [OF c1 fr2] o1 Let_def)
  show ?thesis
    unfolding r2 o1 using fr pt(1) o by simp
qed

section \<open>Recording notifications\<close>

text \<open>
  Claim C8, as the code has it. The stop operation is gated by the point cloud option, not
  by whether a recording is active. With the option off, \<open>stop_pointcloud_recording\<close>
  returns the source unchanged: no camera call, no error. The \<open>recording.stopped\<close> handler
  returns the source unchanged when the source has no menu, and also when the option is off
  and no recording is active (no directory, no widget read-only). With the option on and a
  camera handle, \<open>stop_pointcloud_recording\<close> calls \<open>stop_recording\<close> on the camera.
\<close>

theorem stop_is_noop_when_option_disabled:
  "(\<not> record_pointcloud s \<longrightarrow> stop_pointcloud_recording s = Inr s) \<and>
   (\<not> menu s \<longrightarrow> on_notify Recording_stopped s = Inr s) \<and>
   (\<not> record_pointcloud s \<and> recording_directory s = None \<and>
    ui_usecase s \<noteq> Some True \<and> switch_record_pointcloud s \<noteq> Some True \<longrightarrow>
      on_notify Recording_stopped s = Inr s) \<and>
   (record_pointcloud s \<and> camera s \<longrightarrow>
      stop_pointcloud_recording s = Inr (emit (Camera Stop_recording) s))"
proof (intro conjI impI)
  assume "\<not> record_pointcloud s"
  then show "stop_pointcloud_recording s = Inr s"
    by (simp add: stop_pointcloud_recording_def)
next
  assume "\<not> menu s"
  then show "on_notify Recording_stopped s = Inr s"
    by (simp add: on_notify_def)
next
  assume a: "\<not> record_pointcloud s \<and> recording_directory s = None \<and>
    ui_usecase s \<noteq> Some True \<and> switch_record_pointcloud s \<noteq> Some True"
  have u: "map_option (\<lambda>_. False) (ui_usecase s) = ui_usecase s"
    using a by (cases "ui_usecase s") auto
  have w: "map_option (\<lambda>_. False) (switch_record_pointcloud s) = switch_record_pointcloud s"
    using a by (cases "switch_record_pointcloud s") auto
  show "on_notify Recording_stopped s = Inr s"
    using a by (simp add: on_notify_def stop_pointcloud_recording_def Let_def u w)
next
  assume "record_pointcloud s \<and> camera s"
  then show "stop_pointcloud_recording s = Inr (emit (Camera Stop_recording) s)"
    by (simp add: stop_pointcloud_recording_def)
qed

theorem stop_is_noop_when_option_disabled_witness:
  "\<not> record_pointcloud (example_source\<lparr>record_pointcloud := False\<rparr>) \<and>
   stop_pointcloud_recording (example_source\<lparr>record_pointcloud := False\<rparr>)
     = Inr (example_source\<lparr>record_pointcloud := False\<rparr>) \<and>
   \<not> menu (example_source\<lparr>menu := False\<rparr>) \<and>
   on_notify Recording_stopped (example_source\<lparr>menu := False\<rparr>)
     = Inr (example_source\<lparr>menu := False\<rparr>) \<and>
   (recording_directory (example_source\<lparr>record_pointcloud := False\<rparr>) = None \<and>
    ui_usecase (example_source\<lparr>record_pointcloud := False\<rparr>) \<noteq> Some True \<and>
    switch_record_pointcloud (example_source\<lparr>record_pointcloud := False\<rparr>) \<noteq> Some True) \<and>
   on_notify Recording_stopped (example_source\<lparr>record_pointcloud := False\<rparr>)
     = Inr (example_source\<lparr>record_pointcloud := False\<rparr>) \<and>
   (record_pointcloud example_source \<and> camera example_source) \<and>
   stop_pointcloud_recording example_source = Inr (emit (Camera Stop_recording) example_source)"
  using stop_is_noop_when_option_disabled [of "example_source\<lparr>record_pointcloud := False\<rparr>"]
        stop_is_noop_when_option_disabled [of "example_source\<lparr>menu := False\<rparr>"]
        stop_is_noop_when_option_disabled [of example_source]
  by (simp add: example_source_def)

text \<open>
  The claim as stated fails: with the option on and no recording active, both
  \<open>stop_pointcloud_recording\<close> and the \<open>recording.stopped\<close> handler call
  \<open>stop_recording\<close> on the camera; after \<open>cleanup\<close> the call raises.
\<close>

theorem stop_without_recording_counterexample:
  "recording_directory example_source = None \<and>
   stop_pointcloud_recording example_source
     = Inr (example_source\<lparr>effects := [Camera Stop_recording]\<rparr>) \<and>
   on_notify Recording_stopped example_source
     = Inr (example_source\<lparr>effects := [Camera Stop_recording]\<rparr>) \<and>
   recording_directory (cleanup example_source) = None \<and>
   stop_pointcloud_recording (cleanup example_source) = Inl AttributeError"
  by (simp add: example_source_def stop_pointcloud_recording_def on_notify_def cleanup_def
      emit_def Let_def)

text \<open>
  Claim C9, as the code has it. A \<open>recording.started\<close> notification that reaches a source
  with a menu first remembers the directory, sets the reconnection count to 0 and appends
  to \<open>info_picoflexx.csv\<close> in the recording directory, opened in mode \<open>a\<close> and written
  with \<open>append=True\<close>, the key \<open>Royale Timestamp Offset\<close> with the offset stored at that
  moment; what the handler does then is \<open>start_pointcloud_recording\<close>. When the camera
  handle exists or the option is off, the handler returns, and all it has done to the
  outside is that write, followed by the start of the first segment if the option is on.
\<close>

theorem recording_started_appends_offset_metadata:
  assumes "menu s"
  shows "(\<exists>s5. on_notify (Recording_started d) s = start_pointcloud_recording d s5 \<and>
            new_effects s s5 =
              [Write_key_value_file (path_join d ''info_picoflexx.csv'') ''a''
                 [(''Royale Timestamp Offset'', royale_timestamp_offset s)] True] \<and>
            recording_directory s5 = Some d \<and> recording_reconnection_count s5 = 0) \<and>
         (camera s \<or> \<not> record_pointcloud s \<longrightarrow>
            (\<exists>s'. on_notify (Recording_started d) s = Inr s' \<and>
               new_effects s s' =
                 Write_key_value_file (path_join d ''info_picoflexx.csv'') ''a''
                   [(''Royale Timestamp Offset'', royale_timestamp_offset s)] True #
                 (if record_pointcloud s
                  then [Camera (Start_recording (path_join d ''pointcloud.rrf''))] else [])))"
proof (intro conjI impI)
  let ?s5 = "save_recording_metadata d
               (s\<lparr>switch_record_pointcloud := map_option (\<lambda>_. True) (switch_record_pointcloud s),
                  ui_usecase := map_option (\<lambda>_. True) (ui_usecase s),
                  frame_count := - 1, recording_directory := Some d,
                  recording_reconnection_count := 0\<rparr>)"
  have "on_notify (Recording_started d) s = start_pointcloud_recording d ?s5"
    using assms by (simp add: on_notify_def Let_def)
  moreover have "new_effects s ?s5 =
              [Write_key_value_file (path_join d ''info_picoflexx.csv'') ''a''
                 [(''Royale Timestamp Offset'', royale_timestamp_offset s)] True]"
    "recording_directory ?s5 = Some d" "recording_reconnection_count ?s5 = 0"
    by (simp_all add: save_recording_metadata_def new_effects_def)
  ultimately show "\<exists>s5. on_notify (Recording_started d) s = start_pointcloud_recording d s5 \<and>
            new_effects s s5 =
              [Write_key_value_file (path_join d ''info_picoflexx.csv'') ''a''
                 [(''Royale Timestamp Offset'', royale_timestamp_offset s)] True] \<and>
            recording_directory s5 = Some d \<and> recording_reconnection_count s5 = 0"
    by (intro exI conjI)
next
  assume "camera s \<or> \<not> record_pointcloud s"
  then show "\<exists>s'. on_notify (Recording_started d) s = Inr s' \<and>
               new_effects s s' =
                 Write_key_value_file (path_join d ''info_picoflexx.csv'') ''a''
                   [(''Royale Timestamp Offset'', royale_timestamp_offset s)] True #
                 (if record_pointcloud s
                  then [Camera (Start_recording (path_join d ''pointcloud.rrf''))] else [])"
    using assms
    by (auto simp add: on_notify_def save_recording_metadata_def start_pointcloud_recording_def
        Let_def emit_def new_effects_def)
qed

theorem recording_started_appends_offset_metadata_witness:
  "menu (example_source\<lparr>royale_timestamp_offset := Some 900\<rparr>) \<and>
   camera (example_source\<lparr>royale_timestamp_offset := Some 900\<rparr>) \<and>
   (\<exists>s5. on_notify (Recording_started ''/rec/000'')
            (example_source\<lparr>royale_timestamp_offset := Some 900\<rparr>)
          = start_pointcloud_recording ''/rec/000'' s5 \<and>
         new_effects (example_source\<lparr>royale_timestamp_offset := Some 900\<rparr>) s5 =
           [Write_key_value_file ''/rec/000/info_picoflexx.csv'' ''a''
              [(''Royale Timestamp Offset'', Some 900)] True]) \<and>
   (\<exists>s'. on_notify (Recording_started ''/rec/000'')
            (example_source\<lparr>royale_timestamp_offset := Some 900\<rparr>) = Inr s' \<and>
         new_effects (example_source\<lparr>royale_timestamp_offset := Some 900\<rparr>) s' =
           [Write_key_value_file ''/rec/000/info_picoflexx.csv'' ''a''
              [(''Royale Timestamp Offset'', Some 900)] True,
            Camera (Start_recording ''/rec/000/pointcloud.rrf'')])"
proof -
  let ?s = "example_source\<lparr>royale_timestamp_offset := Some 900\<rparr>"
  have m: "menu ?s" and c: "camera ?s" and r: "record_pointcloud ?s"
    and o: "royale_timestamp_offset ?s = Some 900"
    by (simp_all add: example_source_def)
  have p: "path_join ''/rec/000'' ''info_picoflexx.csv'' = ''/rec/000/info_picoflexx.csv''"
    "path_join ''/rec/000'' ''pointcloud.rrf'' = ''/rec/000/pointcloud.rrf''"
    by (simp_all add: path_join_def)
  note t = recording_started_appends_offset_metadata [OF m, of "''/rec/000''"]
  have a: "\<exists>s5. on_notify (Recording_started ''/rec/000'') ?s
          = start_pointcloud_recording ''/rec/000'' s5 \<and>
         new_effects ?s s5 =
           [Write_key_value_file ''/rec/000/info_picoflexx.csv'' ''a''
              [(''Royale Timestamp Offset'', Some 900)] True]"
    using t [THEN conjunct1] unfolding p o by (elim exE conjE) (intro exI conjI)
  have b: "\<exists>s'. on_notify (Recording_started ''/rec/000'') ?s = Inr s' \<and>
         new_effects ?s s' =
           [Write_key_value_file ''/rec/000/info_picoflexx.csv'' ''a''
              [(''Royale Timestamp Offset'', Some 900)] True,
            Camera (Start_recording ''/rec/000/pointcloud.rrf'')]"
    using t [THEN conjunct2, THEN mp, OF disjI1 [OF c]] r unfolding p o by simp
  show ?thesis
    by (rule conjI [OF m conjI [OF c conjI [OF a b]]])
qed

text \<open>
  The claim as stated fails: a source without a menu ignores the notification and writes
  nothing.
\<close>

theorem recording_started_without_menu_counterexample:
  "on_notify (Recording_started ''/rec/000'') (example_source\<lparr>menu := False\<rparr>)
     = Inr (example_source\<lparr>menu := False\<rparr>)"
  by (simp add: on_notify_def example_source_def)

section \<open>Settings\<close>

text \<open>
  Claim C10. A source constructed from the dictionary that \<open>get_init_dict\<close> returns for a
  source \<open>s1\<close>, while the camera cannot be initialised or is not connected, has the
  \<open>record_pointcloud\<close>, exposure mode, \<open>current_exposure\<close> and \<open>selected_usecase\<close> of
  \<open>s1\<close>, and returns the same dictionary again.
\<close>

theorem settings_round_trip:
  assumes "\<not> (initialize_r r \<and> connected_r r)"
  shows "\<exists>s2. init now r (get_init_dict base s1) = Inr s2 \<and>
           record_pointcloud s2 = record_pointcloud s1 \<and>
           current_exposure_mode s2 = current_exposure_mode s1 \<and>
           current_exposure s2 = current_exposure s1 \<and>
           selected_usecase s2 = selected_usecase s1 \<and>
           get_init_dict base s2 = get_init_dict base s1"
  using assms
  by (auto simp add: init_def init_device_fail get_init_dict_def)

theorem settings_round_trip_witness:
  "\<not> (initialize_r failing_replies \<and> connected_r failing_replies) \<and>
   (\<exists>s2. init 0 failing_replies (get_init_dict [] example_source) = Inr s2 \<and>
      record_pointcloud s2 = True \<and> current_exposure_mode s2 = False \<and>
      current_exposure s2 = 2000 \<and> selected_usecase s2 = None)"
  using settings_round_trip [of failing_replies 0 "[]" example_source]
  by (auto simp add: failing_replies_def example_replies_def example_source_def)

section \<open>Recording segments\<close>

text \<open>
  Claim C4. A source with a menu, a camera handle and the point cloud option on receives
  \<open>recording.started\<close> for a directory \<open>d\<close> and is then polled any number of times. The
  reconnection count is 0 when the recording starts. If \<open>K\<close> is the number of
  \<open>picoflexx.reconnected\<close> notifications emitted since (one for each time the connection
  was restored), the segments opened since, in order, are \<open>pointcloud.rrf\<close>,
  \<open>pointcloud_1.rrf\<close>, ..., \<open>pointcloud_K.rrf\<close> in \<open>d\<close>: there are \<open>K + 1\<close> of them, no
  two are the same, and the count ends at \<open>K\<close>. The witness is one drop and restore,
  which gives \<open>pointcloud.rrf\<close> and \<open>pointcloud_1.rrf\<close>.
\<close>

theorem segments_numbered_by_reconnections:
  assumes "menu s" and "record_pointcloud s" and "camera s"
  shows "\<exists>s1 fs s2.
           on_notify (Recording_started d) s = Inr s1 \<and> recording_reconnection_count s1 = 0 \<and>
           ticks A ps s1 = Inr (fs, s2) \<and>
           opened (new_effects s s2) =
             map (path_join d)
               (''pointcloud.rrf'' #
                map (\<lambda>k. ''pointcloud_'' @ str_int (int k) @ ''.rrf'')
                  [1..<Suc (count_list (new_effects s s2) (Notify_all Picoflexx_reconnected))]) \<and>
           length (opened (new_effects s s2)) =
             Suc (count_list (new_effects s s2) (Notify_all Picoflexx_reconnected)) \<and>
           distinct (opened (new_effects s s2)) \<and>
           recording_reconnection_count s2 =
             int (count_list (new_effects s s2) (Notify_all Picoflexx_reconnected))"
proof -
  let ?R = "Notify_all Picoflexx_reconnected"
  let ?w = "Write_key_value_file (path_join d ''info_picoflexx.csv'') ''a''
                [(''Royale Timestamp Offset'', royale_timestamp_offset s)] True"
  obtain s1 where n: "on_notify (Recording_started d) s = Inr s1" and c1: "camera s1"
    and p1: "record_pointcloud s1" and d1: "recording_directory s1 = Some d"
    and z1: "recording_reconnection_count s1 = 0"
    and e1: "effects s1 = effects s @ [?w, Camera (Start_recording (path_join d ''pointcloud.rrf''))]"
    using recording_started_result [OF assms, of d] by blast
  have z1': "0 \<le> recording_reconnection_count s1" using z1 by simp
  obtain fs s2 ys where t: "ticks A ps s1 = Inr (fs, s2)"
    and e2: "effects s2 = effects s1 @ ys"
    and n2: "recording_reconnection_count s2 =
             recording_reconnection_count s1 + int (count_list ys ?R)"
    and o2: "opened ys =
             map (\<lambda>k. segment_path d (recording_reconnection_count s1 + int k))
               [1..<Suc (count_list ys ?R)]"
    using ticks_segments [OF c1 d1 p1 z1', where ps = ps and A = A] by blast
  let ?K = "count_list (new_effects s s2) ?R"
  have ne: "new_effects s s2 = [?w, Camera (Start_recording (path_join d ''pointcloud.rrf''))] @ ys"
    by (rule new_effects_append) (simp add: e1 e2)
  have k: "count_list ys ?R = ?K"
    by (simp add: ne)
  have "[0..<Suc ?K] = 0 # [1..<Suc ?K]"
    by (simp add: upt_conv_Cons del: upt_Suc)
  then have op: "opened (new_effects s s2) = map (\<lambda>k. segment_path d (int k)) [0..<Suc ?K]"
    using o2 z1 unfolding k by (simp add: ne segment_path_def del: upt_Suc)
  have a: "opened (new_effects s s2) =
             map (path_join d)
               (''pointcloud.rrf'' #
                map (\<lambda>k. ''pointcloud_'' @ str_int (int k) @ ''.rrf'') [1..<Suc ?K])"
    unfolding op by (rule segment_paths_names)
  have b: "length (opened (new_effects s s2)) = Suc ?K"
    by (subst op) simp
  have c: "distinct (opened (new_effects s s2))"
    unfolding op by (rule segment_paths_distinct)
  have d: "recording_reconnection_count s2 = int ?K"
    using n2 z1 unfolding k by simp
  show ?thesis
    apply (rule exI [of _ s1], rule exI [of _ fs], rule exI [of _ s2])
    apply (rule conjI [OF n conjI [OF z1 conjI [OF t conjI [OF a conjI [OF b conjI [OF c d]]]]]])
    done
qed

theorem segments_numbered_by_reconnections_witness:
  "menu example_source \<and> record_pointcloud example_source \<and> camera example_source \<and>
   (\<exists>s1 fs s2.
      on_notify (Recording_started ''/rec/000'') example_source = Inr s1 \<and>
      ticks exact_arith [(timeout_poll 6)\<lparr>reconnect_r := example_replies\<rparr>] s1 = Inr (fs, s2) \<and>
      count_list (new_effects example_source s2) (Notify_all Picoflexx_reconnected) = 1 \<and>
      opened (new_effects example_source s2) =
        [''/rec/000/pointcloud.rrf'', ''/rec/000/pointcloud_1.rrf''])"
proof -
  let ?p = "(timeout_poll 6)\<lparr>reconnect_r := example_replies\<rparr>"
  let ?R = "Notify_all Picoflexx_reconnected"
  have m: "menu example_source" and r: "record_pointcloud example_source"
    and c: "camera example_source"
    by (simp_all add: example_source_def)
  obtain s1 fs s2 where n: "on_notify (Recording_started ''/rec/000'') example_source = Inr s1"
    and t: "ticks exact_arith [?p] s1 = Inr (fs, s2)"
    and o: "opened (new_effects example_source s2) =
             map (path_join ''/rec/000'')
               (''pointcloud.rrf'' #
                map (\<lambda>k. ''pointcloud_'' @ str_int (int k) @ ''.rrf'')
                  [1..<Suc (count_list (new_effects example_source s2) ?R)])"
    using segments_numbered_by_reconnections
            [OF m r c, where d = "''/rec/000''" and ps = "[?p]" and A = exact_arith]
    by (elim exE conjE)
  obtain s1' where n': "on_notify (Recording_started ''/rec/000'') example_source = Inr s1'"
    and c1: "camera s1'"
    and e1: "effects s1' = effects example_source @
             [Write_key_value_file (path_join ''/rec/000'' ''info_picoflexx.csv'') ''a''
                [(''Royale Timestamp Offset'', royale_timestamp_offset example_source)] True,
              Camera (Start_recording (path_join ''/rec/000'' ''pointcloud.rrf''))]"
    using recording_started_result [OF m r c, of "''/rec/000''"] by blast
  have s1: "s1' = s1" using n n' by simp
  have l1: "last_frame_time s1 = 0" "missed_frame_count s1 = 0"
    using n m by (auto simp add: on_notify_def save_recording_metadata_def
        start_pointcloud_recording_def Let_def example_source_def)
  have tr: "trigger exact_arith ?p s1"
    by (simp add: trigger_def l1 timeout_poll_def)
  have fn: "frame_r ?p = None" by (simp add: timeout_poll_def)
  have su: "succeeded (reconnect_r ?p)" by (simp add: succeeded_def example_replies_def)
  obtain res s2' ys where g: "get_frames exact_arith ?p s1 = Inr (res, s2')"
    and e2: "effects s2' = effects s1 @ Camera Get_frame # ys"
    and k2: "count_list ys ?R =
             (if frame_r ?p = None \<and> trigger exact_arith ?p s1 \<and> succeeded (reconnect_r ?p) then 1 else 0)"
    using get_frames_spec [OF c1 [unfolded s1], where p = ?p and A = exact_arith] by blast
  have s2: "s2' = s2" using t g by simp
  have k: "count_list ys ?R = 1" using k2 tr fn su by simp
  have "new_effects example_source s2 =
          [Write_key_value_file (path_join ''/rec/000'' ''info_picoflexx.csv'') ''a''
                [(''Royale Timestamp Offset'', royale_timestamp_offset example_source)] True,
              Camera (Start_recording (path_join ''/rec/000'' ''pointcloud.rrf'')), Camera Get_frame] @ ys"
    by (rule new_effects_append) (simp add: e2 [unfolded s2] e1 [unfolded s1])
  then have K: "count_list (new_effects example_source s2) ?R = 1"
    using k by simp
  have one: "str_int 1 = ''1''" by code_simp
  have O: "opened (new_effects example_source s2) =
        [''/rec/000/pointcloud.rrf'', ''/rec/000/pointcloud_1.rrf'']"
    unfolding o K by (simp add: path_join_def one)
  show ?thesis
    apply (rule conjI [OF m conjI [OF r conjI [OF c]]])
    apply (rule exI [of _ s1], rule exI [of _ fs], rule exI [of _ s2])
    apply (rule conjI [OF n conjI [OF t conjI [OF K O]]])
    done
qed

end
